theory Spec2Isabelle
  imports Main "HOL-Library.Word" "HOL-Library.Mapping" "HOL-Library.AList_Mapping"
begin

section \<open>Go values\<close>

text \<open>
  The controller of \<^verbatim>\<open>pkg/webhooks/validation/controller/controller.go\<close> is embedded
  function by function. Go values are modelled as follows.
  \<^item> A pointer \<^verbatim>\<open>*T\<close> is a \<open>T option\<close>; \<open>None\<close> is the nil pointer.
  \<^item> A slice \<^verbatim>\<open>[]T\<close> is a \<open>T slice\<close>: the nil slice and the empty slice are different
    values for \<^verbatim>\<open>reflect.DeepEqual\<close>, so both exist here.
  \<^item> A map \<^verbatim>\<open>map[string]string\<close> is a \<open>(string, string) mapping option\<close>, \<open>None\<close> the nil map.
  \<^item> \<^verbatim>\<open>reflect.DeepEqual\<close> on two values of one of these types is HOL equality.
  \<^item> An \<^verbatim>\<open>error\<close> produced by a library call is a \<open>go_error\<close>; a call that returns
    \<^verbatim>\<open>(T, error)\<close> returns \<open>go_error + T\<close>, a call that returns \<^verbatim>\<open>error\<close> alone returns
    \<open>go_error option\<close>.
\<close>

datatype 'a slice = nil_slice | Slice "'a list"

fun elems :: "'a slice \<Rightarrow> 'a list" where
  "elems nil_slice = []"
| "elems (Slice xs) = xs"

definition len :: "'a slice \<Rightarrow> nat" where
  "len s = length (elems s)"

text \<open>
  Writing the elements of a slice in place keeps a nil slice nil (it has no element to
  write) and a non-nil slice non-nil.
\<close>

fun with_elems :: "'a slice \<Rightarrow> 'b list \<Rightarrow> 'b slice" where
  "with_elems nil_slice ys = nil_slice"
| "with_elems (Slice xs) ys = Slice ys"

type_synonym bytes = "char slice"

type_synonym gomap = "(string, string) mapping option"

text \<open>
  Errors of the Kubernetes client carry an API status with a reason
  (\<^verbatim>\<open>metav1.StatusReason\<close>, a string type) and a message; \<open>New\<close> is \<^verbatim>\<open>errors.New\<close>
  and \<open>Errorf\<close> is \<^verbatim>\<open>fmt.Errorf\<close>, kept as the format string and its arguments.
  \<^verbatim>\<open>kubeErrors.ReasonForError\<close> reads the reason of a status error and gives
  \<^verbatim>\<open>StatusReasonUnknown\<close> (the empty string) for any other error;
  \<^verbatim>\<open>kubeErrors.IsNotFound\<close> compares that reason with \<^verbatim>\<open>StatusReasonNotFound\<close>.
\<close>

datatype go_error =
    StatusError string string
  | New string
  | Errorf string "fmt_arg list"
and fmt_arg = ArgString string | ArgError go_error

definition StatusReasonUnknown :: string where
  "StatusReasonUnknown = ''''"

definition StatusReasonNotFound :: string where
  "StatusReasonNotFound = ''NotFound''"

fun ReasonForError :: "go_error \<Rightarrow> string" where
  "ReasonForError (StatusError r m) = r"
| "ReasonForError (New m) = StatusReasonUnknown"
| "ReasonForError (Errorf f args) = StatusReasonUnknown"

definition IsNotFound :: "go_error \<Rightarrow> bool" where
  "IsNotFound err = (ReasonForError err = StatusReasonNotFound)"

section \<open>Options and their validation\<close>

record Options =
  WatchedNamespace :: string
  ResyncPeriod :: int
  CAPath :: string
  WebhookConfigName :: string
  WebhookConfigPath :: string
  ServiceName :: string
  GalleyDeploymentName :: string
  ClusterRoleName :: string
  UnregisterValidationWebhook :: bool

text \<open>
  \<^verbatim>\<open>*multierror.Error\<close>: a pointer to a struct holding the list of errors.
  \<^verbatim>\<open>multierror.Append\<close> allocates the struct when it is handed the nil pointer and
  appends the error to the list.
\<close>

type_synonym multierror = "go_error list option"

fun Append :: "multierror \<Rightarrow> go_error \<Rightarrow> multierror" where
  "Append None e = Some [e]"
| "Append (Some es) e = Some (es @ [e])"

text \<open>
  A value of the interface type \<^verbatim>\<open>error\<close> as \<^verbatim>\<open>Validate\<close> can return it: the nil
  interface value, or an interface value whose dynamic type is \<^verbatim>\<open>*multierror.Error\<close>
  and whose pointer may itself be nil. Only the first one is equal to \<^verbatim>\<open>nil\<close> in
  the caller's test \<^verbatim>\<open>err != nil\<close>.
\<close>

datatype error_value = NilError | MultiErrorPtr multierror

definition is_nil_error :: "error_value \<Rightarrow> bool" where
  "is_nil_error e = (e = NilError)"

text \<open>
  \<^verbatim>\<open>Options.Validate\<close> (lines 95-116). \<^verbatim>\<open>labels.IsDNS1123Label\<close> is not part of the
  file; it is the parameter \<open>IsDNS1123Label\<close>. The function declares
  \<^verbatim>\<open>var errs *multierror.Error\<close> and ends with \<^verbatim>\<open>return errs\<close>: the pointer is
  converted to the interface type \<^verbatim>\<open>error\<close>.
\<close>

definition Validate :: "(string \<Rightarrow> bool) \<Rightarrow> Options \<Rightarrow> error_value" where
  "Validate IsDNS1123Label opt =
    (let errs = None;
         errs = (if WebhookConfigName opt = '''' \<or> \<not> IsDNS1123Label (WebhookConfigName opt)
                 then Append errs (Errorf ''invalid webhook name: %q'' [ArgString (WebhookConfigName opt)]) else errs);
         errs = (if WatchedNamespace opt = '''' \<or> \<not> IsDNS1123Label (WatchedNamespace opt)
                 then Append errs (Errorf ''invalid namespace: %q'' [ArgString (WatchedNamespace opt)]) else errs);
         errs = (if GalleyDeploymentName opt \<noteq> '''' \<and> \<not> IsDNS1123Label (GalleyDeploymentName opt)
                 then Append errs (Errorf ''invalid deployment name: %q'' [ArgString (GalleyDeploymentName opt)]) else errs);
         errs = (if ServiceName opt = '''' \<or> \<not> IsDNS1123Label (ServiceName opt)
                 then Append errs (Errorf ''invalid service name: %q'' [ArgString (ServiceName opt)]) else errs);
         errs = (if CAPath opt = ''''
                 then Append errs (New ''CA cert file not specified'') else errs);
         errs = (if WebhookConfigPath opt = ''''
                 then Append errs (New ''webhook config file not specified'') else errs)
     in MultiErrorPtr errs)"

section \<open>Kubernetes objects\<close>

text \<open>
  The fields of the API types that the controller reads or writes, and enough of the
  others for a change of any of them to be visible.
\<close>

record TypeMeta =
  Kind :: string
  APIVersion :: string

record OwnerReference =
  ref_APIVersion :: string
  ref_Kind :: string
  ref_Name :: string
  ref_UID :: string
  ref_Controller :: "bool option"
  ref_BlockOwnerDeletion :: "bool option"

record ObjectMeta =
  meta_Name :: string
  meta_Namespace :: string
  meta_UID :: string
  meta_ResourceVersion :: string
  meta_Generation :: int
  meta_Labels :: gomap
  meta_Annotations :: gomap
  OwnerReferences :: "OwnerReference slice"

record EndpointAddress =
  addr_IP :: string
  addr_Hostname :: string

record EndpointSubset =
  Addresses :: "EndpointAddress slice"
  NotReadyAddresses :: "EndpointAddress slice"

record Endpoints =
  ep_TypeMeta :: TypeMeta
  ep_ObjectMeta :: ObjectMeta
  Subsets :: "EndpointSubset slice"

record DeploymentSpec =
  Replicas :: "32 word option"

record Deployment =
  dep_TypeMeta :: TypeMeta
  dep_ObjectMeta :: ObjectMeta
  Spec :: DeploymentSpec

record ServiceReference =
  svc_Namespace :: string
  svc_Name :: string
  svc_Path :: "string option"
  svc_Port :: "32 word option"

record WebhookClientConfig =
  URL :: "string option"
  Service :: "ServiceReference option"
  CABundle :: bytes

record LabelSelectorRequirement =
  req_Key :: string
  req_Operator :: string
  req_Values :: "string slice"

record LabelSelector =
  MatchLabels :: gomap
  MatchExpressions :: "LabelSelectorRequirement slice"

record RuleWithOperations =
  Operations :: "string slice"
  APIGroups :: "string slice"
  APIVersions :: "string slice"
  Resources :: "string slice"
  Scope :: "string option"

record ValidatingWebhook =
  wh_Name :: string
  ClientConfig :: WebhookClientConfig
  Rules :: "RuleWithOperations slice"
  FailurePolicy :: "string option"
  MatchPolicy :: "string option"
  NamespaceSelector :: "LabelSelector option"
  ObjectSelector :: "LabelSelector option"
  SideEffects :: "string option"
  TimeoutSeconds :: "32 word option"
  AdmissionReviewVersions :: "string slice"

record ValidatingWebhookConfiguration =
  TypeMeta :: TypeMeta
  ObjectMeta :: ObjectMeta
  Webhooks :: "ValidatingWebhook slice"

section \<open>The environment of a reconcile pass\<close>

text \<open>
  \<^verbatim>\<open>pem.Block\<close>, as \<^verbatim>\<open>pem.Decode\<close> returns it.
\<close>

record pem_Block =
  pem_Type :: string
  pem_Headers :: gomap
  pem_Bytes :: bytes

text \<open>
  An item of the work queue is an \<^verbatim>\<open>interface{}\<close>: a \<^verbatim>\<open>*reconcileRequest\<close> (the pointer
  may be nil) or a value of some other type.
\<close>

record reconcileRequest =
  description :: string

datatype queue_obj = RequestPtr "reconcileRequest option" | OtherObj string

text \<open>
  Everything a pass reads from outside the controller, at the moment of the pass: the
  informer caches behind the three listers, the answers of the API server to the
  client's calls, the files behind \<^verbatim>\<open>readFile\<close>, the next item of the queue, and the
  library functions \<^verbatim>\<open>codec.Decode\<close>, \<^verbatim>\<open>pem.Decode\<close> (its first result) and
  \<^verbatim>\<open>x509.ParseCertificate\<close> (its error). A lister may answer with any error; the code
  tests it with \<^verbatim>\<open>IsNotFound\<close>.
\<close>

record World =
  endpointsLister :: "string \<Rightarrow> string \<Rightarrow> go_error + Endpoints"
  deploymentsLister :: "string \<Rightarrow> string \<Rightarrow> go_error + Deployment"
  webhooksLister :: "string \<Rightarrow> go_error + ValidatingWebhookConfiguration"
  clientDelete :: "string \<Rightarrow> go_error option"
  clientCreate :: "ValidatingWebhookConfiguration \<Rightarrow> go_error option"
  clientUpdate :: "ValidatingWebhookConfiguration \<Rightarrow> go_error option"
  readFile :: "string \<Rightarrow> go_error + bytes"
  queueGet :: "queue_obj \<times> bool"
  codecDecode :: "bytes \<Rightarrow> go_error + ValidatingWebhookConfiguration"
  pemDecode :: "bytes \<Rightarrow> pem_Block option"
  x509ParseCertificate :: "bytes \<Rightarrow> go_error option"

text \<open>
  What a pass does to the outside, in order: lookups in the caches, calls of the API
  server, file reads, the observability signals (\<^verbatim>\<open>reportValidationConfig...\<close>), the
  test hook, and the queue operations. Log lines are left out: they change neither the
  control flow nor any of these.
\<close>

datatype event =
    GetEndpoints string string
  | GetDeployment string string
  | GetWebhookConfig string
  | DeleteCall string
  | CreateCall ValidatingWebhookConfiguration
  | UpdateCall ValidatingWebhookConfiguration
  | ReadFile string
  | ReportConfigLoadError string
  | ReportConfigDeleteError string
  | ReportConfigUpdateError string
  | ReportConfigUpdate
  | ReconcileDoneHook
  | QueueGet
  | QueueForget queue_obj
  | QueueAddRateLimited queue_obj
  | QueueDone queue_obj
  | HandleError go_error

text \<open>
  The controller's own state. \<open>c_o\<close> is the field \<^verbatim>\<open>o\<close>; \<open>reconcileDone\<close> says whether
  the test hook is set. The informers, the client and \<^verbatim>\<open>readFile\<close> are in the \<open>World\<close>.
\<close>

record Controller =
  c_o :: Options
  ownerRefs :: "OwnerReference slice"
  endpointReadyOnce :: bool
  reconcileDone :: bool

text \<open>A Go call either returns or panics.\<close>

datatype 'a result = Returned 'a | Panicked

section \<open>Readiness of the endpoint and the legacy deployment\<close>

text \<open>The loop of \<^verbatim>\<open>isEndpointReady\<close> (lines 400-405) over the subsets.\<close>

fun subsetsReady :: "EndpointSubset list \<Rightarrow> bool \<times> string" where
  "subsetsReady [] = (False, ''no subset addresses ready'')"
| "subsetsReady (s # rest) =
     (if len (Addresses s) > 0 then (True, []) else subsetsReady rest)"

text \<open>The function \<^verbatim>\<open>isEndpointReady\<close> (lines 396-406).\<close>

definition isEndpointReady :: "Endpoints \<Rightarrow> bool \<times> string" where
  "isEndpointReady endpoint =
     (if len (Subsets endpoint) = 0 then (False, ''no subsets'')
      else subsetsReady (elems (Subsets endpoint)))"

text \<open>The method \<^verbatim>\<open>Controller.isEndpointReady\<close> (lines 383-394).\<close>

definition Controller_isEndpointReady ::
  "World \<Rightarrow> Controller \<Rightarrow> (bool \<times> go_error option) \<times> event list" where
  "Controller_isEndpointReady w c =
     (let ns = WatchedNamespace (c_o c); name = ServiceName (c_o c) in
      (case endpointsLister w ns name of
         Inl err \<Rightarrow> if IsNotFound err then (False, None) else (False, Some err)
       | Inr endpoint \<Rightarrow> (fst (isEndpointReady endpoint), None),
       [GetEndpoints ns name]))"

text \<open>The method \<^verbatim>\<open>Controller.isGalleyDeploymentRunning\<close> (lines 408-427).\<close>

definition isGalleyDeploymentRunning ::
  "World \<Rightarrow> Controller \<Rightarrow> (bool \<times> go_error option) \<times> event list" where
  "isGalleyDeploymentRunning w c =
     (let ns = WatchedNamespace (c_o c); name = GalleyDeploymentName (c_o c) in
      (case deploymentsLister w ns name of
         Inl err \<Rightarrow> if IsNotFound err then (False, None) else (False, Some err)
       | Inr galley \<Rightarrow>
           if Replicas (Spec galley) = None \<or> Replicas (Spec galley) = Some 0
           then (False, None) else (True, None),
       [GetDeployment ns name]))"

section \<open>Deleting and applying the webhook configuration\<close>

text \<open>The method \<^verbatim>\<open>deleteValidatingWebhookConfiguration\<close> (lines 429-439).\<close>

definition deleteValidatingWebhookConfiguration ::
  "World \<Rightarrow> Controller \<Rightarrow> go_error option \<times> event list" where
  "deleteValidatingWebhookConfiguration w c =
     (let name = WebhookConfigName (c_o c) in
      case clientDelete w name of
        Some err \<Rightarrow> (Some err, [DeleteCall name, ReportConfigDeleteError (ReasonForError err)])
      | None \<Rightarrow> (None, [DeleteCall name]))"

text \<open>
  The method \<^verbatim>\<open>updateValidatingWebhookConfiguration\<close> (lines 441-474). The lister's
  error is tested with \<^verbatim>\<open>IsNotFound\<close> only: after any other error \<^verbatim>\<open>current\<close> is the nil
  pointer, \<^verbatim>\<open>current.DeepCopyObject()\<close> is the nil interface and the type assertion on
  it panics. \<^verbatim>\<open>DeepCopyObject\<close> copies the value; the two assignments then replace
  \<^verbatim>\<open>Webhooks\<close> and the \<^verbatim>\<open>OwnerReferences\<close> of the embedded \<^verbatim>\<open>ObjectMeta\<close>.
\<close>

definition updateValidatingWebhookConfiguration ::
  "World \<Rightarrow> Controller \<Rightarrow> ValidatingWebhookConfiguration
     \<Rightarrow> go_error option result \<times> event list" where
  "updateValidatingWebhookConfiguration w c desired =
     (let name = WebhookConfigName (c_o c) in
      case webhooksLister w name of
        Inl err \<Rightarrow>
          if IsNotFound err then
            (case clientCreate w desired of
               Some err' \<Rightarrow>
                 (Returned (Some err'),
                  [GetWebhookConfig name, CreateCall desired,
                   ReportConfigUpdateError (ReasonForError err')])
             | None \<Rightarrow>
                 (Returned None,
                  [GetWebhookConfig name, CreateCall desired, ReportConfigUpdate]))
          else (Panicked, [GetWebhookConfig name])
      | Inr current \<Rightarrow>
          (let updated = current;
               updated = updated\<lparr>Webhooks := Webhooks desired\<rparr>;
               updated = updated\<lparr>ObjectMeta :=
                 (ObjectMeta updated)\<lparr>OwnerReferences := OwnerReferences (ObjectMeta desired)\<rparr>\<rparr>
           in if updated \<noteq> current then
                (case clientUpdate w updated of
                   Some err' \<Rightarrow>
                     (Returned (Some err'),
                      [GetWebhookConfig name, UpdateCall updated,
                       ReportConfigUpdateError (ReasonForError err')])
                 | None \<Rightarrow>
                     (Returned None,
                      [GetWebhookConfig name, UpdateCall updated, ReportConfigUpdate]))
              else (Returned None, [GetWebhookConfig name, ReportConfigUpdate])))"

section \<open>Building the desired configuration\<close>

text \<open>\<^verbatim>\<open>configError\<close> (lines 476-487) and its method \<^verbatim>\<open>Reason\<close>.\<close>

record configError =
  ce_err :: go_error
  ce_reason :: string

definition Reason :: "configError \<Rightarrow> string" where
  "Reason e = ce_reason e"

definition failurePolicyFail :: string where
  "failurePolicyFail = ''Fail''"

definition sideEffectsUnknown :: string where
  "sideEffectsUnknown = ''Unknown''"

text \<open>\<^verbatim>\<open>&kubeApiMeta.LabelSelector{}\<close>: both fields have their zero value.\<close>

definition emptyLabelSelector :: LabelSelector where
  "emptyLabelSelector = \<lparr>MatchLabels = None, MatchExpressions = nil_slice\<rparr>"

text \<open>The body of the loop of \<^verbatim>\<open>decodeValidatingConfig\<close> (lines 551-559), for one entry.\<close>

definition fillDefaults :: "ValidatingWebhook \<Rightarrow> ValidatingWebhook" where
  "fillDefaults wh =
     (let wh = (if FailurePolicy wh = None
                then wh\<lparr>FailurePolicy := Some failurePolicyFail\<rparr> else wh);
          wh = (if NamespaceSelector wh = None
                then wh\<lparr>NamespaceSelector := Some emptyLabelSelector\<rparr> else wh);
          wh = (if SideEffects wh = None
                then wh\<lparr>SideEffects := Some sideEffectsUnknown\<rparr> else wh)
      in wh)"

text \<open>The loop itself (line 550), over the entries in index order.\<close>

fun fillDefaultsLoop :: "ValidatingWebhook list \<Rightarrow> ValidatingWebhook list" where
  "fillDefaultsLoop [] = []"
| "fillDefaultsLoop (wh # rest) = fillDefaults wh # fillDefaultsLoop rest"

text \<open>\<^verbatim>\<open>decodeValidatingConfig\<close> (lines 543-563).\<close>

definition decodeValidatingConfig ::
  "World \<Rightarrow> bytes \<Rightarrow> go_error + ValidatingWebhookConfiguration" where
  "decodeValidatingConfig w encoded =
     (case codecDecode w encoded of
        Inl err \<Rightarrow> Inl err
      | Inr config \<Rightarrow>
          Inr (config\<lparr>Webhooks :=
                 with_elems (Webhooks config) (fillDefaultsLoop (elems (Webhooks config)))\<rparr>))"

text \<open>\<^verbatim>\<open>verifyCABundle\<close> (lines 565-577).\<close>

definition verifyCABundle :: "World \<Rightarrow> bytes \<Rightarrow> go_error option" where
  "verifyCABundle w caBundle =
     (case pemDecode w caBundle of
        None \<Rightarrow> Some (New ''could not decode pem'')
      | Some block \<Rightarrow>
          if pem_Type block \<noteq> ''CERTIFICATE''
          then Some (Errorf ''cert contains wrong pem type: %q'' [ArgString (pem_Type block)])
          else (case x509ParseCertificate w (pem_Bytes block) of
                  Some err \<Rightarrow>
                    Some (Errorf ''cert contains invalid x509 certificate: %v'' [ArgError err])
                | None \<Rightarrow> None))"

text \<open>The loop of \<^verbatim>\<open>buildValidatingWebhookConfiguration\<close> (lines 514-516).\<close>

fun setCABundleLoop :: "bytes \<Rightarrow> ValidatingWebhook list \<Rightarrow> ValidatingWebhook list" where
  "setCABundleLoop caBundle [] = []"
| "setCABundleLoop caBundle (wh # rest) =
     wh\<lparr>ClientConfig := (ClientConfig wh)\<lparr>CABundle := caBundle\<rparr>\<rparr> # setCABundleLoop caBundle rest"

text \<open>The function \<^verbatim>\<open>buildValidatingWebhookConfiguration\<close> (lines 501-519).\<close>

definition buildValidatingWebhookConfiguration ::
  "World \<Rightarrow> bytes \<Rightarrow> bytes \<Rightarrow> OwnerReference slice
     \<Rightarrow> configError + ValidatingWebhookConfiguration" where
  "buildValidatingWebhookConfiguration w caBundle webhook refs =
     (case decodeValidatingConfig w webhook of
        Inl err \<Rightarrow>
          Inl \<lparr>ce_err = err,
               ce_reason = ''could not decode validatingwebhookconfiguration file''\<rparr>
      | Inr config \<Rightarrow>
          (case verifyCABundle w caBundle of
             Some err \<Rightarrow> Inl \<lparr>ce_err = err, ce_reason = ''could not verify caBundle''\<rparr>
           | None \<Rightarrow>
               (let config = config\<lparr>ObjectMeta := (ObjectMeta config)\<lparr>OwnerReferences := refs\<rparr>\<rparr>;
                    config = config\<lparr>Webhooks :=
                      with_elems (Webhooks config)
                        (setCABundleLoop caBundle (elems (Webhooks config)))\<rparr>
                in Inr config)))"

text \<open>The method \<^verbatim>\<open>Controller.buildValidatingWebhookConfiguration\<close> (lines 489-499).\<close>

definition Controller_buildValidatingWebhookConfiguration ::
  "World \<Rightarrow> Controller
     \<Rightarrow> (configError + ValidatingWebhookConfiguration) \<times> event list" where
  "Controller_buildValidatingWebhookConfiguration w c =
     (case readFile w (WebhookConfigPath (c_o c)) of
        Inl err \<Rightarrow>
          (Inl \<lparr>ce_err = err,
                ce_reason = ''could not read validatingwebhookconfiguration file''\<rparr>,
           [ReadFile (WebhookConfigPath (c_o c))])
      | Inr webhook \<Rightarrow>
          (case readFile w (CAPath (c_o c)) of
             Inl err \<Rightarrow>
               (Inl \<lparr>ce_err = err, ce_reason = ''could not read caBundle file''\<rparr>,
                [ReadFile (WebhookConfigPath (c_o c)), ReadFile (CAPath (c_o c))])
           | Inr caBundle \<Rightarrow>
               (buildValidatingWebhookConfiguration w caBundle webhook (ownerRefs c),
                [ReadFile (WebhookConfigPath (c_o c)), ReadFile (CAPath (c_o c))])))"

section \<open>The reconcile pass\<close>

text \<open>
  \<^verbatim>\<open>Controller.reconcileRequest\<close> (lines 330-381) returns early from each gate, so it is
  written as three stages, each ending in the next one: the unregister and converge
  branches (lines 367-380), the legacy gate before them (lines 354-365), and the
  readiness gate before that (lines 340-352), the only place that writes
  \<^verbatim>\<open>endpointReadyOnce\<close>. \<open>reconcileRequest\<close> adds the deferred call of the test hook.
  The type assertion \<^verbatim>\<open>err.(*configError)\<close> of line 375 cannot fail: both build
  functions return no other error type.
\<close>

definition reconcileConverge :: "World \<Rightarrow> Controller \<Rightarrow> go_error option result \<times> event list" where
  "reconcileConverge w c =
     (if UnregisterValidationWebhook (c_o c) then
        (let (err, evs) = deleteValidatingWebhookConfiguration w c in (Returned err, evs))
      else
        (case Controller_buildValidatingWebhookConfiguration w c of
           (Inl err, evs) \<Rightarrow> (Returned None, evs @ [ReportConfigLoadError (Reason err)])
         | (Inr desired, evs) \<Rightarrow>
             (let (r, evs') = updateValidatingWebhookConfiguration w c desired
              in (r, evs @ evs'))))"

definition reconcileLegacyGate :: "World \<Rightarrow> Controller \<Rightarrow> go_error option result \<times> event list" where
  "reconcileLegacyGate w c =
     (if GalleyDeploymentName (c_o c) \<noteq> [] then
        (case isGalleyDeploymentRunning w c of
           ((running, Some err), evs) \<Rightarrow> (Returned (Some err), evs)
         | ((running, None), evs) \<Rightarrow>
             if running then (Returned None, evs)
             else (let (r, evs') = reconcileConverge w c in (r, evs @ evs')))
      else reconcileConverge w c)"

definition reconcileReadinessGate ::
  "World \<Rightarrow> Controller \<Rightarrow> go_error option result \<times> Controller \<times> event list" where
  "reconcileReadinessGate w c =
     (if \<not> endpointReadyOnce c then
        (case Controller_isEndpointReady w c of
           ((ready, Some err), evs) \<Rightarrow> (Returned (Some err), c, evs)
         | ((ready, None), evs) \<Rightarrow>
             if \<not> ready then (Returned None, c, evs)
             else (let c' = c\<lparr>endpointReadyOnce := True\<rparr>;
                       (r, evs') = reconcileLegacyGate w c'
                   in (r, c', evs @ evs')))
      else (let (r, evs) = reconcileLegacyGate w c in (r, c, evs)))"

definition reconcileRequest ::
  "World \<Rightarrow> Controller \<Rightarrow> reconcileRequest option
     \<Rightarrow> go_error option result \<times> Controller \<times> event list" where
  "reconcileRequest w c req =
     (let (r, c', evs) = reconcileReadinessGate w c
      in (r, c', evs @ (if reconcileDone c' then [ReconcileDoneHook] else [])))"

section \<open>The worker\<close>

text \<open>
  \<^verbatim>\<open>processNextWorkItem\<close> (lines 306-327). \<^verbatim>\<open>queue.Done\<close> is deferred, so it runs last,
  also when the pass panics. When the item is not a \<^verbatim>\<open>*reconcileRequest\<close> the failed
  assertion leaves \<^verbatim>\<open>req\<close> nil, and that nil pointer is what is forgotten.
\<close>

definition processNextWorkItem :: "World \<Rightarrow> Controller \<Rightarrow> bool result \<times> Controller \<times> event list" where
  "processNextWorkItem w c =
     (let (obj, shutdown) = queueGet w in
      if shutdown then (Returned False, c, [QueueGet])
      else
        (case obj of
           OtherObj x \<Rightarrow>
             (Returned True, c, [QueueGet, QueueForget (RequestPtr None), QueueDone obj])
         | RequestPtr req \<Rightarrow>
             (case reconcileRequest w c req of
                (Panicked, c', evs) \<Rightarrow> (Panicked, c', QueueGet # evs @ [QueueDone obj])
              | (Returned (Some err), c', evs) \<Rightarrow>
                  (Returned True, c',
                   QueueGet # evs @ [QueueAddRateLimited obj, HandleError err, QueueDone obj])
              | (Returned None, c', evs) \<Rightarrow>
                  (Returned True, c', QueueGet # evs @ [QueueForget obj, QueueDone obj]))))"

text \<open>
  \<^verbatim>\<open>runWorker\<close> (lines 301-304) calls \<^verbatim>\<open>processNextWorkItem\<close> until it returns false.
  The list holds the environment of each iteration in turn, so a run over the list is
  the worker's run up to that many items; it ends early when the queue is shut down or
  a pass panics.
\<close>

fun runWorker :: "World list \<Rightarrow> Controller \<Rightarrow> Controller \<times> event list" where
  "runWorker [] c = (c, [])"
| "runWorker (w # ws) c =
     (case processNextWorkItem w c of
        (Returned True, c', evs) \<Rightarrow>
          (let (c'', evs') = runWorker ws c' in (c'', evs @ evs'))
      | (Returned False, c', evs) \<Rightarrow> (c', evs)
      | (Panicked, c', evs) \<Rightarrow> (c', evs))"

section \<open>Vocabulary of the properties\<close>

text \<open>The events of a pass, by kind.\<close>

fun isEndpointLookup :: "event \<Rightarrow> bool" where
  "isEndpointLookup (GetEndpoints ns name) = True"
| "isEndpointLookup ev = False"

text \<open>Building the desired state starts by reading the template file.\<close>

fun isBuildEvent :: "event \<Rightarrow> bool" where
  "isBuildEvent (ReadFile path) = True"
| "isBuildEvent ev = False"

text \<open>A read (from the cache) or a write (through the client) of the webhook resource.\<close>

fun isTargetEvent :: "event \<Rightarrow> bool" where
  "isTargetEvent (GetWebhookConfig name) = True"
| "isTargetEvent (DeleteCall name) = True"
| "isTargetEvent (CreateCall obj) = True"
| "isTargetEvent (UpdateCall obj) = True"
| "isTargetEvent ev = False"

fun isWriteCall :: "event \<Rightarrow> bool" where
  "isWriteCall (DeleteCall name) = True"
| "isWriteCall (CreateCall obj) = True"
| "isWriteCall (UpdateCall obj) = True"
| "isWriteCall ev = False"

fun isRequeue :: "event \<Rightarrow> bool" where
  "isRequeue (QueueAddRateLimited obj) = True"
| "isRequeue ev = False"

text \<open>The deferred hook call at the end of a pass.\<close>

definition hookEvents :: "Controller \<Rightarrow> event list" where
  "hookEvents c = (if reconcileDone c then [ReconcileDoneHook] else [])"

text \<open>
  A pass gets past the readiness gate when the flag is already set or the lookup finds
  the endpoint ready, and past the legacy gate when no deployment name is configured
  or the lookup finds the deployment not running. \<open>readinessEvents\<close> and
  \<open>legacyEvents\<close> are the lookups such a pass makes at the two gates.
\<close>

definition passesReadinessGate :: "World \<Rightarrow> Controller \<Rightarrow> bool" where
  "passesReadinessGate w c =
     (endpointReadyOnce c \<or> fst (Controller_isEndpointReady w c) = (True, None))"

definition passesLegacyGate :: "World \<Rightarrow> Controller \<Rightarrow> bool" where
  "passesLegacyGate w c =
     (GalleyDeploymentName (c_o c) = [] \<or> fst (isGalleyDeploymentRunning w c) = (False, None))"

definition readinessEvents :: "Controller \<Rightarrow> event list" where
  "readinessEvents c =
     (if endpointReadyOnce c then []
      else [GetEndpoints (WatchedNamespace (c_o c)) (ServiceName (c_o c))])"

definition legacyEvents :: "Controller \<Rightarrow> event list" where
  "legacyEvents c =
     (if GalleyDeploymentName (c_o c) = [] then []
      else [GetDeployment (WatchedNamespace (c_o c)) (GalleyDeploymentName (c_o c))])"

section \<open>Sample inputs\<close>

text \<open>
  A small installation: the options, a controller that has not seen the endpoint ready
  yet, a template with one entry that leaves the three defaulted fields out, and an
  environment in which the endpoint is ready, no legacy deployment and no webhook
  resource exist, every API call succeeds, and both files are readable and well-formed.
\<close>

definition notFound :: go_error where
  "notFound = StatusError ''NotFound'' ''not found''"

definition sampleOptions :: Options where
  "sampleOptions =
     \<lparr>WatchedNamespace = ''istio-system'', ResyncPeriod = 0, CAPath = ''/ca.pem'',
      WebhookConfigName = ''istio-galley'', WebhookConfigPath = ''/config.yaml'',
      ServiceName = ''istio-galley'', GalleyDeploymentName = [],
      ClusterRoleName = ''istio-galley-istio-system'',
      UnregisterValidationWebhook = False\<rparr>"

definition sampleController :: Controller where
  "sampleController =
     \<lparr>c_o = sampleOptions, ownerRefs = nil_slice, endpointReadyOnce = False,
      reconcileDone = False\<rparr>"

definition sampleWebhook :: ValidatingWebhook where
  "sampleWebhook =
     \<lparr>wh_Name = ''validation.istio.io'',
      ClientConfig =
        \<lparr>URL = None,
         Service = Some \<lparr>svc_Namespace = ''istio-system'', svc_Name = ''istio-galley'',
                         svc_Path = Some ''/admitpilot'', svc_Port = None\<rparr>,
         CABundle = nil_slice\<rparr>,
      Rules = Slice [\<lparr>Operations = Slice [''CREATE'', ''UPDATE''],
                      APIGroups = Slice [''config.istio.io''], APIVersions = Slice [''*''],
                      Resources = Slice [''*''], Scope = None\<rparr>],
      FailurePolicy = None, MatchPolicy = None, NamespaceSelector = None,
      ObjectSelector = None, SideEffects = None, TimeoutSeconds = None,
      AdmissionReviewVersions = nil_slice\<rparr>"

definition sampleTemplate :: ValidatingWebhookConfiguration where
  "sampleTemplate =
     \<lparr>TypeMeta = \<lparr>Kind = ''ValidatingWebhookConfiguration'',
                   APIVersion = ''admissionregistration.k8s.io/v1beta1''\<rparr>,
      ObjectMeta = \<lparr>meta_Name = ''istio-galley'', meta_Namespace = [], meta_UID = [],
                     meta_ResourceVersion = [], meta_Generation = 0, meta_Labels = None,
                     meta_Annotations = None, OwnerReferences = nil_slice\<rparr>,
      Webhooks = Slice [sampleWebhook]\<rparr>"

definition sampleEndpoints :: Endpoints where
  "sampleEndpoints =
     \<lparr>ep_TypeMeta = \<lparr>Kind = ''Endpoints'', APIVersion = ''v1''\<rparr>,
      ep_ObjectMeta = \<lparr>meta_Name = ''istio-galley'', meta_Namespace = ''istio-system'',
                        meta_UID = ''e1'', meta_ResourceVersion = ''7'', meta_Generation = 0,
                        meta_Labels = None, meta_Annotations = None,
                        OwnerReferences = nil_slice\<rparr>,
      Subsets = Slice [\<lparr>Addresses = nil_slice, NotReadyAddresses = nil_slice\<rparr>,
                       \<lparr>Addresses = Slice [\<lparr>addr_IP = ''10.0.0.1'', addr_Hostname = []\<rparr>],
                        NotReadyAddresses = nil_slice\<rparr>]\<rparr>"


definition sampleRequest :: "reconcileRequest option" where
  "sampleRequest = Some \<lparr>description = ''initial request to kickstart reconciliation''\<rparr>"

definition sampleWorld :: World where
  "sampleWorld =
     \<lparr>endpointsLister = (\<lambda>ns name. Inr sampleEndpoints),
      deploymentsLister = (\<lambda>ns name. Inl notFound),
      webhooksLister = (\<lambda>name. Inl notFound),
      clientDelete = (\<lambda>name. None),
      clientCreate = (\<lambda>obj. None),
      clientUpdate = (\<lambda>obj. None),
      readFile = (\<lambda>path. if path = ''/config.yaml'' then Inr (Slice ''template'')
                         else if path = ''/ca.pem'' then Inr (Slice ''pem'')
                         else Inl (New ''no such file'')),
      queueGet = (RequestPtr sampleRequest, False),
      codecDecode = (\<lambda>b. if b = Slice ''template'' then Inr sampleTemplate
                           else Inl (New ''cannot decode'')),
      pemDecode = (\<lambda>b. if b = Slice ''pem''
                         then Some \<lparr>pem_Type = ''CERTIFICATE'', pem_Headers = None,
                                    pem_Bytes = Slice ''der''\<rparr>
                         else None),
      x509ParseCertificate = (\<lambda>b. if b = Slice ''der'' then None
                                    else Some (New ''malformed certificate''))\<rparr>"


definition unregisterController :: Controller where
  "unregisterController =
     sampleController\<lparr>c_o := sampleOptions\<lparr>UnregisterValidationWebhook := True\<rparr>\<rparr>"

definition sampleCurrent :: ValidatingWebhookConfiguration where
  "sampleCurrent =
     sampleTemplate\<lparr>ObjectMeta :=
       (ObjectMeta sampleTemplate)\<lparr>meta_UID := ''8a2b'', meta_ResourceVersion := ''42'',
                                   meta_Generation := 3\<rparr>\<rparr>"

definition serverError :: go_error where
  "serverError = StatusError ''InternalError'' ''etcdserver: request timed out''"

definition sampleIsLabel :: "string \<Rightarrow> bool" where
  "sampleIsLabel s = (s = ''istio-galley'' \<or> s = ''istio-system'')"

section \<open>Auxiliary facts\<close>

subsection \<open>Endpoint readiness\<close>

lemma subsetsReady_iff: "fst (subsetsReady ss) \<longleftrightarrow> (\<exists>s\<in>set ss. 0 < len (Addresses s))"
  by (induction ss) auto

lemma isEndpointReady_iff:
  "fst (isEndpointReady ep) \<longleftrightarrow> (\<exists>s\<in>set (elems (Subsets ep)). 0 < len (Addresses s))"
  by (auto simp: isEndpointReady_def subsetsReady_iff len_def)

subsection \<open>What the later stages do not read\<close>

lemma verify_endpoints_irrelevant:
  "verifyCABundle (w\<lparr>endpointsLister := l\<rparr>) ca = verifyCABundle w ca"
  by (simp add: verifyCABundle_def split: option.splits)

lemma decode_endpoints_irrelevant:
  "decodeValidatingConfig (w\<lparr>endpointsLister := l\<rparr>) tpl = decodeValidatingConfig w tpl"
  by (simp add: decodeValidatingConfig_def)

lemma build_endpoints_irrelevant:
  "buildValidatingWebhookConfiguration (w\<lparr>endpointsLister := l\<rparr>) ca tpl refs =
     buildValidatingWebhookConfiguration w ca tpl refs"
  by (simp add: buildValidatingWebhookConfiguration_def decode_endpoints_irrelevant
      verify_endpoints_irrelevant cong: sum.case_cong)

lemma converge_endpoints_irrelevant:
  "reconcileConverge (w\<lparr>endpointsLister := l\<rparr>) c = reconcileConverge w c"
  by (simp add: reconcileConverge_def deleteValidatingWebhookConfiguration_def
      Controller_buildValidatingWebhookConfiguration_def
      updateValidatingWebhookConfiguration_def build_endpoints_irrelevant
      cong: sum.case_cong if_cong)

lemma legacyGate_endpoints_irrelevant:
  "reconcileLegacyGate (w\<lparr>endpointsLister := l\<rparr>) c = reconcileLegacyGate w c"
  by (simp add: reconcileLegacyGate_def isGalleyDeploymentRunning_def
      converge_endpoints_irrelevant cong: if_cong prod.case_cong option.case_cong)

lemma converge_no_endpoint_lookup:
  "filter isEndpointLookup (snd (reconcileConverge w c)) = []"
  by (auto simp: reconcileConverge_def deleteValidatingWebhookConfiguration_def
      Controller_buildValidatingWebhookConfiguration_def updateValidatingWebhookConfiguration_def
      Let_def split: prod.splits sum.splits option.splits if_splits)

lemma legacyGate_no_endpoint_lookup:
  "filter isEndpointLookup (snd (reconcileLegacyGate w c)) = []"
  using converge_no_endpoint_lookup [of w c]
  by (auto simp: reconcileLegacyGate_def isGalleyDeploymentRunning_def Let_def
      split: prod.splits sum.splits option.splits if_splits)

subsection \<open>A pass of a controller whose flag is set\<close>

lemma reconcileRequest_flag_set:
  assumes "endpointReadyOnce c"
  shows "reconcileRequest w c req =
           (case reconcileLegacyGate w c of
              (r, evs) \<Rightarrow> (r, c, evs @ (if reconcileDone c then [ReconcileDoneHook] else [])))"
  using assms by (simp add: reconcileRequest_def reconcileReadinessGate_def split: prod.splits)

lemma reconcileRequest_monotone:
  "endpointReadyOnce c \<Longrightarrow> endpointReadyOnce (fst (snd (reconcileRequest w c req)))"
  by (simp add: reconcileRequest_flag_set split: prod.splits)

lemma reconcileRequest_no_lookup:
  "endpointReadyOnce c \<Longrightarrow> filter isEndpointLookup (snd (snd (reconcileRequest w c req))) = []"
  using legacyGate_no_endpoint_lookup [of w c]
  by (auto simp: reconcileRequest_flag_set split: prod.splits)

lemma reconcileRequest_endpoints_irrelevant:
  "endpointReadyOnce c \<Longrightarrow>
     reconcileRequest (w\<lparr>endpointsLister := l\<rparr>) c req = reconcileRequest w c req"
  by (simp add: reconcileRequest_flag_set legacyGate_endpoints_irrelevant)

lemma reconcileRequest_sticky:
  assumes "endpointReadyOnce c" and "reconcileRequest w c req = (r, c', evs)"
  shows "endpointReadyOnce c' \<and> filter isEndpointLookup evs = []"
  using reconcileRequest_monotone [OF assms(1), of w req]
    reconcileRequest_no_lookup [OF assms(1), of w req] assms(2)
  by simp

lemma processNextWorkItem_sticky:
  assumes "endpointReadyOnce c"
  shows "endpointReadyOnce (fst (snd (processNextWorkItem w c)))
     \<and> filter isEndpointLookup (snd (snd (processNextWorkItem w c))) = []
     \<and> processNextWorkItem (w\<lparr>endpointsLister := l\<rparr>) c = processNextWorkItem w c"
  using assms
  by (auto simp: processNextWorkItem_def reconcileRequest_endpoints_irrelevant
      dest!: reconcileRequest_sticky [OF assms]
      split: prod.splits queue_obj.splits result.splits option.splits)

lemma runWorker_sticky:
  "endpointReadyOnce c \<Longrightarrow>
     endpointReadyOnce (fst (runWorker ws c))
     \<and> filter isEndpointLookup (snd (runWorker ws c)) = []
     \<and> runWorker (map (\<lambda>w. w\<lparr>endpointsLister := f w\<rparr>) ws) c = runWorker ws c"
proof (induction ws arbitrary: c)
  case Nil
  then show ?case by simp
next
  case (Cons w ws)
  obtain r c' evs where p: "processNextWorkItem w c = (r, c', evs)"
    by (cases "processNextWorkItem w c") auto
  from processNextWorkItem_sticky [OF Cons.prems, of w "f w"] p
  have c': "endpointReadyOnce c'" and evs: "filter isEndpointLookup evs = []"
    and same: "processNextWorkItem (w\<lparr>endpointsLister := f w\<rparr>) c = (r, c', evs)"
    by auto
  from Cons.IH [OF c'] show ?case
    using p same c' evs
    by (auto split: prod.splits result.splits bool.splits)
qed

subsection \<open>A pass that gets past the gates\<close>

lemma converge_flag_irrelevant:
  "reconcileConverge w (c\<lparr>endpointReadyOnce := b\<rparr>) = reconcileConverge w c"
  by (simp add: reconcileConverge_def deleteValidatingWebhookConfiguration_def
      Controller_buildValidatingWebhookConfiguration_def
      updateValidatingWebhookConfiguration_def cong: sum.case_cong if_cong)

lemma legacyGate_flag_irrelevant:
  "reconcileLegacyGate w (c\<lparr>endpointReadyOnce := b\<rparr>) = reconcileLegacyGate w c"
  by (simp add: reconcileLegacyGate_def isGalleyDeploymentRunning_def converge_flag_irrelevant
      cong: if_cong prod.case_cong option.case_cong)

lemma readinessGate_passed:
  assumes "passesReadinessGate w c"
  shows "reconcileReadinessGate w c =
           (case reconcileLegacyGate w c of
              (r, evs) \<Rightarrow> (r, c\<lparr>endpointReadyOnce := True\<rparr>, readinessEvents c @ evs))"
  using assms
  by (auto simp: passesReadinessGate_def reconcileReadinessGate_def readinessEvents_def
      Controller_isEndpointReady_def legacyGate_flag_irrelevant Let_def
      split: prod.splits sum.splits if_splits)

lemma legacyGate_passed:
  assumes "passesLegacyGate w c"
  shows "reconcileLegacyGate w c =
           (case reconcileConverge w c of (r, evs) \<Rightarrow> (r, legacyEvents c @ evs))"
  using assms
  by (auto simp: passesLegacyGate_def reconcileLegacyGate_def legacyEvents_def
      isGalleyDeploymentRunning_def Let_def
      split: prod.splits sum.splits if_splits)

lemma reconcileRequest_past_gates:
  assumes "passesReadinessGate w c" and "passesLegacyGate w c"
  shows "reconcileRequest w c req =
           (case reconcileConverge w c of
              (r, evs) \<Rightarrow>
                (r, c\<lparr>endpointReadyOnce := True\<rparr>,
                 readinessEvents c @ legacyEvents c @ evs @ hookEvents c))"
  by (simp add: reconcileRequest_def readinessGate_passed [OF assms(1)]
      legacyGate_passed [OF assms(2)] hookEvents_def split: prod.splits)



lemma filter_gate_events:
  "filter isBuildEvent (readinessEvents c) = []" "filter isBuildEvent (legacyEvents c) = []"
  "filter isBuildEvent (hookEvents c) = []"
  "filter isTargetEvent (readinessEvents c) = []" "filter isTargetEvent (legacyEvents c) = []"
  "filter isTargetEvent (hookEvents c) = []"
  by (simp_all add: readinessEvents_def legacyEvents_def hookEvents_def)

subsection \<open>The work item after the pass\<close>

lemma processNextWorkItem_nil:
  assumes "queueGet w = (RequestPtr req, False)"
    and "reconcileRequest w c req = (Returned None, c', evs)"
  shows "processNextWorkItem w c =
           (Returned True, c',
            QueueGet # evs @ [QueueForget (RequestPtr req), QueueDone (RequestPtr req)])"
  using assms by (simp add: processNextWorkItem_def)

lemma processNextWorkItem_error:
  assumes "queueGet w = (RequestPtr req, False)"
    and "reconcileRequest w c req = (Returned (Some err), c', evs)"
  shows "processNextWorkItem w c =
           (Returned True, c',
            QueueGet # evs @ [QueueAddRateLimited (RequestPtr req), HandleError err,
                              QueueDone (RequestPtr req)])"
  using assms by (simp add: processNextWorkItem_def)

lemma converge_build_failure:
  assumes "\<not> UnregisterValidationWebhook (c_o c)"
    and "Controller_buildValidatingWebhookConfiguration w c = (Inl ce, bevs)"
  shows "reconcileConverge w c = (Returned None, bevs @ [ReportConfigLoadError (Reason ce)])"
  using assms by (simp add: reconcileConverge_def)

lemma reconcileRequest_build_failure:
  assumes "passesReadinessGate w c" and "passesLegacyGate w c"
    and "\<not> UnregisterValidationWebhook (c_o c)"
    and "Controller_buildValidatingWebhookConfiguration w c = (Inl ce, bevs)"
  shows "reconcileRequest w c req =
           (Returned None, c\<lparr>endpointReadyOnce := True\<rparr>,
            readinessEvents c @ legacyEvents c @ bevs @ [ReportConfigLoadError (Reason ce)]
              @ hookEvents c)"
  by (simp add: reconcileRequest_past_gates [OF assms(1,2)] converge_build_failure [OF assms(3,4)])

lemma build_events_no_target: "filter isTargetEvent (snd (Controller_buildValidatingWebhookConfiguration w c)) = []"
  by (simp add: Controller_buildValidatingWebhookConfiguration_def split: sum.splits)

lemma build_events_no_requeue: "filter isRequeue (snd (Controller_buildValidatingWebhookConfiguration w c)) = []"
  by (simp add: Controller_buildValidatingWebhookConfiguration_def split: sum.splits)

lemma gate_events_no_requeue:
  "filter isRequeue (readinessEvents c) = []" "filter isRequeue (legacyEvents c) = []"
  "filter isRequeue (hookEvents c) = []"
  by (simp_all add: readinessEvents_def legacyEvents_def hookEvents_def)

lemma converge_unregister:
  assumes "UnregisterValidationWebhook (c_o c)"
  shows "reconcileConverge w c =
           (case clientDelete w (WebhookConfigName (c_o c)) of
              Some err \<Rightarrow>
                (Returned (Some err),
                 [DeleteCall (WebhookConfigName (c_o c)), ReportConfigDeleteError (ReasonForError err)])
            | None \<Rightarrow> (Returned None, [DeleteCall (WebhookConfigName (c_o c))]))"
  using assms
  by (simp add: reconcileConverge_def deleteValidatingWebhookConfiguration_def split: option.splits)

subsection \<open>The iterations over the webhook entries\<close>

lemma fillDefaultsLoop_map: "fillDefaultsLoop whs = map fillDefaults whs"
  by (induction whs) simp_all

lemma setCABundleLoop_map:
  "setCABundleLoop ca whs = map (\<lambda>wh. wh\<lparr>ClientConfig := (ClientConfig wh)\<lparr>CABundle := ca\<rparr>\<rparr>) whs"
  by (induction whs) simp_all

lemma elems_with_elems: "length ys = length (elems s) \<Longrightarrow> elems (with_elems s ys) = ys"
  by (cases s) simp_all

lemma fillDefaults_fields:
  "FailurePolicy (fillDefaults wh) =
     (if FailurePolicy wh = None then Some ''Fail'' else FailurePolicy wh)"
  "NamespaceSelector (fillDefaults wh) =
     (if NamespaceSelector wh = None
      then Some \<lparr>MatchLabels = None, MatchExpressions = nil_slice\<rparr> else NamespaceSelector wh)"
  "SideEffects (fillDefaults wh) =
     (if SideEffects wh = None then Some ''Unknown'' else SideEffects wh)"
  by (simp_all add: fillDefaults_def failurePolicyFail_def sideEffectsUnknown_def
      emptyLabelSelector_def Let_def)

section \<open>C1: the readiness gate\<close>

text \<open>
  Claim C1. In a pass that starts with the sticky flag false: when the Endpoints object
  of the configured service is not in the cache, or has no subsets, or none of its
  subsets has an address, \<open>reconcileRequest\<close> returns nil, leaves the controller as it
  was, and the lookup of the endpoint is the only thing it has done (no file read, no
  read or write of the webhook resource). When some subset has an address, the flag is
  set and the pass goes on with the legacy gate.
\<close>

theorem C1_readiness_gate:
  assumes "\<not> endpointReadyOnce c"
  shows "((\<exists>err. endpointsLister w (WatchedNamespace (c_o c)) (ServiceName (c_o c)) = Inl err
                \<and> IsNotFound err)
          \<or> (\<exists>ep. endpointsLister w (WatchedNamespace (c_o c)) (ServiceName (c_o c)) = Inr ep
                \<and> (len (Subsets ep) = 0 \<or> (\<forall>s\<in>set (elems (Subsets ep)). len (Addresses s) = 0)))
         \<longrightarrow> reconcileRequest w c req =
               (Returned None, c,
                GetEndpoints (WatchedNamespace (c_o c)) (ServiceName (c_o c)) # hookEvents c))
       \<and> ((\<exists>ep. endpointsLister w (WatchedNamespace (c_o c)) (ServiceName (c_o c)) = Inr ep
                \<and> (\<exists>s\<in>set (elems (Subsets ep)). 0 < len (Addresses s)))
         \<longrightarrow> reconcileRequest w c req =
               (case reconcileLegacyGate w (c\<lparr>endpointReadyOnce := True\<rparr>) of
                  (r, evs) \<Rightarrow>
                    (r, c\<lparr>endpointReadyOnce := True\<rparr>,
                     GetEndpoints (WatchedNamespace (c_o c)) (ServiceName (c_o c)) # evs
                       @ hookEvents c)))"
  using assms
  by (auto simp: reconcileRequest_def reconcileReadinessGate_def Controller_isEndpointReady_def
      isEndpointReady_iff hookEvents_def Let_def len_def split: prod.splits sum.splits)

text \<open>
  The cases at the sample installation: the Endpoints object missing from the cache,
  present with one subset whose only address is not ready, and present with an address
  in its second subset (the pass then creates the resource).
\<close>

theorem C1_readiness_gate_witness:
  "\<not> endpointReadyOnce sampleController
   \<and> endpointsLister (sampleWorld\<lparr>endpointsLister := \<lambda>ns name. Inl notFound\<rparr>)
        (WatchedNamespace (c_o sampleController)) (ServiceName (c_o sampleController)) = Inl notFound
   \<and> IsNotFound notFound
   \<and> reconcileRequest (sampleWorld\<lparr>endpointsLister := \<lambda>ns name. Inl notFound\<rparr>)
        sampleController None =
        (Returned None, sampleController, [GetEndpoints ''istio-system'' ''istio-galley''])
   \<and> reconcileRequest
        (sampleWorld\<lparr>endpointsLister := \<lambda>ns name. Inr
         (sampleEndpoints\<lparr>Subsets := Slice [\<lparr>Addresses = nil_slice,
           NotReadyAddresses = Slice [\<lparr>addr_IP = ''10.0.0.1'', addr_Hostname = []\<rparr>]\<rparr>]\<rparr>)\<rparr>)
        sampleController None =
        (Returned None, sampleController, [GetEndpoints ''istio-system'' ''istio-galley''])
   \<and> endpointsLister sampleWorld
        (WatchedNamespace (c_o sampleController)) (ServiceName (c_o sampleController)) = Inr sampleEndpoints
   \<and> 0 < len (Addresses (elems (Subsets sampleEndpoints) ! 1))
   \<and> reconcileRequest sampleWorld sampleController None =
        (fst (reconcileLegacyGate sampleWorld (sampleController\<lparr>endpointReadyOnce := True\<rparr>)),
         sampleController\<lparr>endpointReadyOnce := True\<rparr>,
         GetEndpoints ''istio-system'' ''istio-galley''
           # snd (reconcileLegacyGate sampleWorld (sampleController\<lparr>endpointReadyOnce := True\<rparr>)))
   \<and> length (filter isWriteCall (snd (snd (reconcileRequest sampleWorld sampleController None)))) = 1"
proof -
  have n: "\<not> endpointReadyOnce sampleController"
    by (simp add: sampleController_def)
  have l1: "endpointsLister (sampleWorld\<lparr>endpointsLister := \<lambda>ns name. Inl notFound\<rparr>)
        (WatchedNamespace (c_o sampleController)) (ServiceName (c_o sampleController)) = Inl notFound"
    by simp
  have nf: "IsNotFound notFound"
    by (simp add: IsNotFound_def notFound_def StatusReasonNotFound_def)
  have l2: "endpointsLister sampleWorld
        (WatchedNamespace (c_o sampleController)) (ServiceName (c_o sampleController)) = Inr sampleEndpoints"
    by (simp add: sampleWorld_def)
  have a2: "0 < len (Addresses (elems (Subsets sampleEndpoints) ! 1))"
    by (simp add: sampleEndpoints_def len_def)
  have s2: "\<exists>s\<in>set (elems (Subsets sampleEndpoints)). 0 < len (Addresses s)"
    by (simp add: sampleEndpoints_def len_def)
  have names: "WatchedNamespace (c_o sampleController) = ''istio-system''"
    "ServiceName (c_o sampleController) = ''istio-galley''"
    "hookEvents sampleController = []"
    "hookEvents (sampleController\<lparr>endpointReadyOnce := True\<rparr>) = []"
    by (simp_all add: sampleController_def sampleOptions_def hookEvents_def)
  from C1_readiness_gate [OF n, of "sampleWorld\<lparr>endpointsLister := \<lambda>ns name. Inl notFound\<rparr>" None]
    l1 nf
  have r1: "reconcileRequest (sampleWorld\<lparr>endpointsLister := \<lambda>ns name. Inl notFound\<rparr>)
        sampleController None =
        (Returned None, sampleController, [GetEndpoints ''istio-system'' ''istio-galley''])"
    by (simp add: names)
  let ?ep3 = "sampleEndpoints\<lparr>Subsets := Slice [\<lparr>Addresses = nil_slice,
           NotReadyAddresses = Slice [\<lparr>addr_IP = ''10.0.0.1'', addr_Hostname = []\<rparr>]\<rparr>]\<rparr>"
  have l3: "endpointsLister (sampleWorld\<lparr>endpointsLister := \<lambda>ns name. Inr ?ep3\<rparr>)
        (WatchedNamespace (c_o sampleController)) (ServiceName (c_o sampleController)) = Inr ?ep3"
    by simp
  have s3: "\<forall>s\<in>set (elems (Subsets ?ep3)). len (Addresses s) = 0"
    by (simp add: len_def)
  from C1_readiness_gate [OF n, of "sampleWorld\<lparr>endpointsLister := \<lambda>ns name. Inr ?ep3\<rparr>" None]
    l3 s3
  have r3: "reconcileRequest (sampleWorld\<lparr>endpointsLister := \<lambda>ns name. Inr ?ep3\<rparr>)
        sampleController None =
        (Returned None, sampleController, [GetEndpoints ''istio-system'' ''istio-galley''])"
    by (simp add: names)
  from C1_readiness_gate [OF n, of sampleWorld None] l2 s2
  have r2: "reconcileRequest sampleWorld sampleController None =
        (fst (reconcileLegacyGate sampleWorld (sampleController\<lparr>endpointReadyOnce := True\<rparr>)),
         sampleController\<lparr>endpointReadyOnce := True\<rparr>,
         GetEndpoints ''istio-system'' ''istio-galley''
           # snd (reconcileLegacyGate sampleWorld (sampleController\<lparr>endpointReadyOnce := True\<rparr>)))"
    by (simp add: names split: prod.splits)
  have e: "length (filter isWriteCall (snd (snd (reconcileRequest sampleWorld sampleController None)))) = 1"
    by code_simp
  from n l1 nf r1 r3 l2 a2 r2 e show ?thesis
    by blast
qed

section \<open>C2: the legacy gate\<close>




section \<open>C3: a configuration error is reported and not retried\<close>

text \<open>
  Claim C3. When a pass reaches the build step and the build fails with a
  \<open>configError\<close>, \<open>reconcileRequest\<close> reports the error's reason through the
  config-load-error signal and returns nil, without reading or writing the webhook
  resource; \<open>processNextWorkItem\<close> then forgets the item and marks it done, and does not
  put it back on the queue. The build step has no other kind of error.
\<close>

theorem C3_config_error_not_retried:
  assumes "passesReadinessGate w c" and "passesLegacyGate w c"
    and "\<not> UnregisterValidationWebhook (c_o c)"
    and "Controller_buildValidatingWebhookConfiguration w c = (Inl ce, bevs)"
  shows "reconcileRequest w c req =
           (Returned None, c\<lparr>endpointReadyOnce := True\<rparr>,
            readinessEvents c @ legacyEvents c @ bevs @ [ReportConfigLoadError (Reason ce)]
              @ hookEvents c)
       \<and> filter isTargetEvent (snd (snd (reconcileRequest w c req))) = []
       \<and> (queueGet w = (RequestPtr req, False) \<longrightarrow>
            processNextWorkItem w c =
              (Returned True, c\<lparr>endpointReadyOnce := True\<rparr>,
               QueueGet # (readinessEvents c @ legacyEvents c @ bevs
                            @ [ReportConfigLoadError (Reason ce)] @ hookEvents c)
                 @ [QueueForget (RequestPtr req), QueueDone (RequestPtr req)])
            \<and> filter isRequeue (snd (snd (processNextWorkItem w c))) = [])"
proof -
  note eq = reconcileRequest_build_failure [OF assms, of req]
  from build_events_no_target [of w c] build_events_no_requeue [of w c] assms(4)
  have b: "filter isTargetEvent bevs = []" "filter isRequeue bevs = []"
    by simp_all
  have t: "filter isTargetEvent (snd (snd (reconcileRequest w c req))) = []"
    by (simp add: eq filter_gate_events b)
  have q: "queueGet w = (RequestPtr req, False) \<longrightarrow>
            processNextWorkItem w c =
              (Returned True, c\<lparr>endpointReadyOnce := True\<rparr>,
               QueueGet # (readinessEvents c @ legacyEvents c @ bevs
                            @ [ReportConfigLoadError (Reason ce)] @ hookEvents c)
                 @ [QueueForget (RequestPtr req), QueueDone (RequestPtr req)])
            \<and> filter isRequeue (snd (snd (processNextWorkItem w c))) = []"
  proof (intro impI)
    assume g: "queueGet w = (RequestPtr req, False)"
    note p = processNextWorkItem_nil [OF g eq]
    show "processNextWorkItem w c =
              (Returned True, c\<lparr>endpointReadyOnce := True\<rparr>,
               QueueGet # (readinessEvents c @ legacyEvents c @ bevs
                            @ [ReportConfigLoadError (Reason ce)] @ hookEvents c)
                 @ [QueueForget (RequestPtr req), QueueDone (RequestPtr req)])
            \<and> filter isRequeue (snd (snd (processNextWorkItem w c))) = []"
      by (simp add: p gate_events_no_requeue b)
  qed
  from eq t q show ?thesis by blast
qed

text \<open>
  The sample installation with a template file that the codec cannot decode.
\<close>

theorem C3_config_error_not_retried_witness:
  "passesReadinessGate (sampleWorld\<lparr>readFile := \<lambda>path. Inr (Slice ''not yaml'')\<rparr>) sampleController
   \<and> passesLegacyGate (sampleWorld\<lparr>readFile := \<lambda>path. Inr (Slice ''not yaml'')\<rparr>) sampleController
   \<and> \<not> UnregisterValidationWebhook (c_o sampleController)
   \<and> Controller_buildValidatingWebhookConfiguration
        (sampleWorld\<lparr>readFile := \<lambda>path. Inr (Slice ''not yaml'')\<rparr>) sampleController =
        (Inl \<lparr>ce_err = New ''cannot decode'',
              ce_reason = ''could not decode validatingwebhookconfiguration file''\<rparr>,
         [ReadFile ''/config.yaml'', ReadFile ''/ca.pem''])
   \<and> reconcileRequest (sampleWorld\<lparr>readFile := \<lambda>path. Inr (Slice ''not yaml'')\<rparr>)
        sampleController sampleRequest =
        (Returned None, sampleController\<lparr>endpointReadyOnce := True\<rparr>,
         [GetEndpoints ''istio-system'' ''istio-galley'',
          ReadFile ''/config.yaml'', ReadFile ''/ca.pem'',
          ReportConfigLoadError ''could not decode validatingwebhookconfiguration file''])
   \<and> queueGet (sampleWorld\<lparr>readFile := \<lambda>path. Inr (Slice ''not yaml'')\<rparr>)
        = (RequestPtr sampleRequest, False)
   \<and> processNextWorkItem (sampleWorld\<lparr>readFile := \<lambda>path. Inr (Slice ''not yaml'')\<rparr>)
        sampleController =
        (Returned True, sampleController\<lparr>endpointReadyOnce := True\<rparr>,
         [QueueGet, GetEndpoints ''istio-system'' ''istio-galley'',
          ReadFile ''/config.yaml'', ReadFile ''/ca.pem'',
          ReportConfigLoadError ''could not decode validatingwebhookconfiguration file'',
          QueueForget (RequestPtr sampleRequest), QueueDone (RequestPtr sampleRequest)])"
proof -
  let ?w = "sampleWorld\<lparr>readFile := \<lambda>path. Inr (Slice ''not yaml'')\<rparr>"
  have h1: "passesReadinessGate ?w sampleController"
    and h2: "passesLegacyGate ?w sampleController"
    and h3: "\<not> UnregisterValidationWebhook (c_o sampleController)"
    and h4: "Controller_buildValidatingWebhookConfiguration ?w sampleController =
        (Inl \<lparr>ce_err = New ''cannot decode'',
              ce_reason = ''could not decode validatingwebhookconfiguration file''\<rparr>,
         [ReadFile ''/config.yaml'', ReadFile ''/ca.pem''])"
    by code_simp+
  have q: "queueGet ?w = (RequestPtr sampleRequest, False)"
    by (simp add: sampleWorld_def)
  have evs: "readinessEvents sampleController = [GetEndpoints ''istio-system'' ''istio-galley'']"
    "legacyEvents sampleController = []" "hookEvents sampleController = []"
    by (simp_all add: readinessEvents_def legacyEvents_def hookEvents_def
        sampleController_def sampleOptions_def)
  from C3_config_error_not_retried [OF h1 h2 h3 h4, of sampleRequest] q
  have c: "reconcileRequest ?w sampleController sampleRequest =
        (Returned None, sampleController\<lparr>endpointReadyOnce := True\<rparr>,
         [GetEndpoints ''istio-system'' ''istio-galley'',
          ReadFile ''/config.yaml'', ReadFile ''/ca.pem'',
          ReportConfigLoadError ''could not decode validatingwebhookconfiguration file''])"
    and p: "processNextWorkItem ?w sampleController =
        (Returned True, sampleController\<lparr>endpointReadyOnce := True\<rparr>,
         [QueueGet, GetEndpoints ''istio-system'' ''istio-galley'',
          ReadFile ''/config.yaml'', ReadFile ''/ca.pem'',
          ReportConfigLoadError ''could not decode validatingwebhookconfiguration file'',
          QueueForget (RequestPtr sampleRequest), QueueDone (RequestPtr sampleRequest)])"
    by (simp_all add: evs Reason_def)
  from h1 h2 h3 h4 c q p show ?thesis
    by blast
qed

section \<open>C4: verification of the CA bundle\<close>

text \<open>
  Claim C4, as amended. The template is decoded first: when it does not decode, the
  build fails with the reason "could not decode validatingwebhookconfiguration file",
  whatever the CA bundle is. When the template decodes: if the CA bundle holds no PEM
  block that \<^verbatim>\<open>pem.Decode\<close> finds, or its first block is not of type "CERTIFICATE", or
  the block's bytes do not parse as an X.509 certificate, the build fails with the
  reason "could not verify caBundle"; if the first block is of type "CERTIFICATE" and
  parses, the build succeeds, keeps every entry of the template, and every entry's
  client-config CABundle is the CA bundle as it was read.
\<close>

theorem C4_ca_bundle_verified:
  "(decodeValidatingConfig w webhook = Inl derr \<longrightarrow>
      buildValidatingWebhookConfiguration w caBundle webhook refs =
        Inl \<lparr>ce_err = derr, ce_reason = ''could not decode validatingwebhookconfiguration file''\<rparr>)
   \<and> (decodeValidatingConfig w webhook = Inr config \<longrightarrow>
        ((pemDecode w caBundle = None
          \<or> (\<exists>block. pemDecode w caBundle = Some block
                \<and> (pem_Type block \<noteq> ''CERTIFICATE''
                    \<or> x509ParseCertificate w (pem_Bytes block) \<noteq> None)))
         \<longrightarrow> (\<exists>e. buildValidatingWebhookConfiguration w caBundle webhook refs =
                    Inl \<lparr>ce_err = e, ce_reason = ''could not verify caBundle''\<rparr>))
      \<and> ((\<exists>block. pemDecode w caBundle = Some block \<and> pem_Type block = ''CERTIFICATE''
                \<and> x509ParseCertificate w (pem_Bytes block) = None)
         \<longrightarrow> (\<exists>desired. buildValidatingWebhookConfiguration w caBundle webhook refs = Inr desired
                \<and> len (Webhooks desired) = len (Webhooks config)
                \<and> (\<forall>wh\<in>set (elems (Webhooks desired)). CABundle (ClientConfig wh) = caBundle))))"
proof (intro conjI impI)
  assume "decodeValidatingConfig w webhook = Inl derr"
  then show "buildValidatingWebhookConfiguration w caBundle webhook refs =
        Inl \<lparr>ce_err = derr, ce_reason = ''could not decode validatingwebhookconfiguration file''\<rparr>"
    by (simp add: buildValidatingWebhookConfiguration_def)
next
  assume d: "decodeValidatingConfig w webhook = Inr config"
    and bad: "pemDecode w caBundle = None
          \<or> (\<exists>block. pemDecode w caBundle = Some block
                \<and> (pem_Type block \<noteq> ''CERTIFICATE''
                    \<or> x509ParseCertificate w (pem_Bytes block) \<noteq> None))"
  from bad have "verifyCABundle w caBundle \<noteq> None"
    by (auto simp: verifyCABundle_def split: option.splits)
  then obtain e where "verifyCABundle w caBundle = Some e"
    by blast
  with d show "\<exists>e. buildValidatingWebhookConfiguration w caBundle webhook refs =
                    Inl \<lparr>ce_err = e, ce_reason = ''could not verify caBundle''\<rparr>"
    by (simp add: buildValidatingWebhookConfiguration_def)
next
  assume d: "decodeValidatingConfig w webhook = Inr config"
    and good: "\<exists>block. pemDecode w caBundle = Some block \<and> pem_Type block = ''CERTIFICATE''
                \<and> x509ParseCertificate w (pem_Bytes block) = None"
  from good have v: "verifyCABundle w caBundle = None"
    by (auto simp: verifyCABundle_def)
  define desired where
    "desired = config\<lparr>ObjectMeta := (ObjectMeta config)\<lparr>OwnerReferences := refs\<rparr>,
                 Webhooks := with_elems (Webhooks config)
                               (setCABundleLoop caBundle (elems (Webhooks config)))\<rparr>"
  from d v have b: "buildValidatingWebhookConfiguration w caBundle webhook refs = Inr desired"
    by (simp add: buildValidatingWebhookConfiguration_def desired_def Let_def)
  have e: "elems (Webhooks desired) =
             map (\<lambda>wh. wh\<lparr>ClientConfig := (ClientConfig wh)\<lparr>CABundle := caBundle\<rparr>\<rparr>)
               (elems (Webhooks config))"
    by (simp add: desired_def setCABundleLoop_map elems_with_elems)
  have "len (Webhooks desired) = len (Webhooks config)"
    by (simp add: len_def e)
  moreover have "\<forall>wh\<in>set (elems (Webhooks desired)). CABundle (ClientConfig wh) = caBundle"
    by (auto simp: e)
  ultimately show "\<exists>desired. buildValidatingWebhookConfiguration w caBundle webhook refs = Inr desired
                \<and> len (Webhooks desired) = len (Webhooks config)
                \<and> (\<forall>wh\<in>set (elems (Webhooks desired)). CABundle (ClientConfig wh) = caBundle)"
    using b by blast
qed

text \<open>
  The sample environment with a CA bundle that holds no PEM block, with the well-formed
  one, and with a template that does not decode.
\<close>

theorem C4_ca_bundle_verified_witness:
  "decodeValidatingConfig sampleWorld (Slice ''template'') =
     Inr (sampleTemplate\<lparr>Webhooks := Slice [fillDefaults sampleWebhook]\<rparr>)
   \<and> pemDecode sampleWorld (Slice ''not pem'') = None
   \<and> (\<exists>e. buildValidatingWebhookConfiguration sampleWorld (Slice ''not pem'') (Slice ''template'')
              nil_slice = Inl \<lparr>ce_err = e, ce_reason = ''could not verify caBundle''\<rparr>)
   \<and> pemDecode sampleWorld (Slice ''pem'') =
       Some \<lparr>pem_Type = ''CERTIFICATE'', pem_Headers = None, pem_Bytes = Slice ''der''\<rparr>
   \<and> x509ParseCertificate sampleWorld (Slice ''der'') = None
   \<and> (\<exists>desired. buildValidatingWebhookConfiguration sampleWorld (Slice ''pem'') (Slice ''template'')
              nil_slice = Inr desired
         \<and> len (Webhooks desired) = 1
         \<and> CABundle (ClientConfig (elems (Webhooks desired) ! 0)) = Slice ''pem'')
   \<and> decodeValidatingConfig sampleWorld (Slice ''not yaml'') = Inl (New ''cannot decode'')
   \<and> buildValidatingWebhookConfiguration sampleWorld (Slice ''pem'') (Slice ''not yaml'') nil_slice =
       Inl \<lparr>ce_err = New ''cannot decode'',
            ce_reason = ''could not decode validatingwebhookconfiguration file''\<rparr>"
proof -
  let ?c = "sampleTemplate\<lparr>Webhooks := Slice [fillDefaults sampleWebhook]\<rparr>"
  have d: "decodeValidatingConfig sampleWorld (Slice ''template'') = Inr ?c"
    and d': "decodeValidatingConfig sampleWorld (Slice ''not yaml'') = Inl (New ''cannot decode'')"
    and p1: "pemDecode sampleWorld (Slice ''not pem'') = None"
    and p2: "pemDecode sampleWorld (Slice ''pem'') =
       Some \<lparr>pem_Type = ''CERTIFICATE'', pem_Headers = None, pem_Bytes = Slice ''der''\<rparr>"
    and x: "x509ParseCertificate sampleWorld (Slice ''der'') = None"
    and l: "len (Webhooks ?c) = 1"
    by code_simp+
  note t1 = C4_ca_bundle_verified [where w = sampleWorld and webhook = "Slice ''template''"
      and config = ?c and caBundle = "Slice ''not pem''" and refs = nil_slice]
  note t2 = C4_ca_bundle_verified [where w = sampleWorld and webhook = "Slice ''template''"
      and config = ?c and caBundle = "Slice ''pem''" and refs = nil_slice]
  note t3 = C4_ca_bundle_verified [where w = sampleWorld and webhook = "Slice ''not yaml''"
      and derr = "New ''cannot decode''" and caBundle = "Slice ''pem''" and refs = nil_slice]
  from t1 d p1
  have c1: "\<exists>e. buildValidatingWebhookConfiguration sampleWorld (Slice ''not pem'') (Slice ''template'')
              nil_slice = Inl \<lparr>ce_err = e, ce_reason = ''could not verify caBundle''\<rparr>"
    by blast
  from t2 d p2 x obtain desired where
    b: "buildValidatingWebhookConfiguration sampleWorld (Slice ''pem'') (Slice ''template'')
              nil_slice = Inr desired"
    and n: "len (Webhooks desired) = len (Webhooks ?c)"
    and a: "\<forall>wh\<in>set (elems (Webhooks desired)). CABundle (ClientConfig wh) = Slice ''pem''"
    by auto
  from n l have "0 < length (elems (Webhooks desired))"
    by (simp add: len_def)
  with a have "CABundle (ClientConfig (elems (Webhooks desired) ! 0)) = Slice ''pem''"
    by (meson nth_mem)
  with b n l
  have c2: "\<exists>desired. buildValidatingWebhookConfiguration sampleWorld (Slice ''pem'') (Slice ''template'')
              nil_slice = Inr desired
         \<and> len (Webhooks desired) = 1
         \<and> CABundle (ClientConfig (elems (Webhooks desired) ! 0)) = Slice ''pem''"
    by auto
  from t3 d'
  have c3: "buildValidatingWebhookConfiguration sampleWorld (Slice ''pem'') (Slice ''not yaml'') nil_slice =
       Inl \<lparr>ce_err = New ''cannot decode'',
            ce_reason = ''could not decode validatingwebhookconfiguration file''\<rparr>"
    by blast
  from d p1 c1 p2 x c2 d' c3 show ?thesis
    by blast
qed

text \<open>
  Claim C4 as the specification states it fails twice. The reason of a CA bundle that
  does not verify is "could not verify caBundle", which is not the string
  "could not verify CA bundle" of the claim. And a CA bundle that does not verify, next
  to a template that does not decode, gives the decode reason: the template is decoded
  first.
\<close>

theorem C4_counterexample:
  "pemDecode sampleWorld (Slice ''not pem'') = None
   \<and> buildValidatingWebhookConfiguration sampleWorld (Slice ''not pem'') (Slice ''template'') nil_slice =
       Inl \<lparr>ce_err = New ''could not decode pem'', ce_reason = ''could not verify caBundle''\<rparr>
   \<and> Reason \<lparr>ce_err = New ''could not decode pem'', ce_reason = ''could not verify caBundle''\<rparr>
       \<noteq> ''could not verify CA bundle''
   \<and> buildValidatingWebhookConfiguration sampleWorld (Slice ''not pem'') (Slice ''not yaml'') nil_slice =
       Inl \<lparr>ce_err = New ''cannot decode'',
            ce_reason = ''could not decode validatingwebhookconfiguration file''\<rparr>"
  by code_simp

section \<open>C5: defaults of the decoded template\<close>

text \<open>
  Claim C5. When \<open>decodeValidatingConfig\<close> succeeds, the result has the entries of the
  template as the codec decoded it, in the same number and order, and in every entry a
  failure policy that was left out is "Fail", a namespace selector that was left out is
  the empty label selector, a side-effects class that was left out is "Unknown", and a
  value that was given is kept; so none of the three is nil.
\<close>

theorem C5_defaults_filled:
  assumes "decodeValidatingConfig w encoded = Inr config'"
  shows "\<exists>config. codecDecode w encoded = Inr config
           \<and> len (Webhooks config') = len (Webhooks config)
           \<and> (\<forall>i < len (Webhooks config).
                 FailurePolicy (elems (Webhooks config') ! i) =
                   (if FailurePolicy (elems (Webhooks config) ! i) = None then Some ''Fail''
                    else FailurePolicy (elems (Webhooks config) ! i))
               \<and> NamespaceSelector (elems (Webhooks config') ! i) =
                   (if NamespaceSelector (elems (Webhooks config) ! i) = None
                    then Some \<lparr>MatchLabels = None, MatchExpressions = nil_slice\<rparr>
                    else NamespaceSelector (elems (Webhooks config) ! i))
               \<and> SideEffects (elems (Webhooks config') ! i) =
                   (if SideEffects (elems (Webhooks config) ! i) = None then Some ''Unknown''
                    else SideEffects (elems (Webhooks config) ! i))
               \<and> FailurePolicy (elems (Webhooks config') ! i) \<noteq> None
               \<and> NamespaceSelector (elems (Webhooks config') ! i) \<noteq> None
               \<and> SideEffects (elems (Webhooks config') ! i) \<noteq> None)"
proof -
  from assms obtain config where d: "codecDecode w encoded = Inr config"
    and c': "config' = config\<lparr>Webhooks :=
               with_elems (Webhooks config) (fillDefaultsLoop (elems (Webhooks config)))\<rparr>"
    by (auto simp: decodeValidatingConfig_def split: sum.splits)
  have e: "elems (Webhooks config') = map fillDefaults (elems (Webhooks config))"
    by (simp add: c' fillDefaultsLoop_map elems_with_elems)
  have l: "len (Webhooks config') = len (Webhooks config)"
    by (simp add: len_def e)
  have "\<forall>i < len (Webhooks config).
                 FailurePolicy (elems (Webhooks config') ! i) =
                   (if FailurePolicy (elems (Webhooks config) ! i) = None then Some ''Fail''
                    else FailurePolicy (elems (Webhooks config) ! i))
               \<and> NamespaceSelector (elems (Webhooks config') ! i) =
                   (if NamespaceSelector (elems (Webhooks config) ! i) = None
                    then Some \<lparr>MatchLabels = None, MatchExpressions = nil_slice\<rparr>
                    else NamespaceSelector (elems (Webhooks config) ! i))
               \<and> SideEffects (elems (Webhooks config') ! i) =
                   (if SideEffects (elems (Webhooks config) ! i) = None then Some ''Unknown''
                    else SideEffects (elems (Webhooks config) ! i))
               \<and> FailurePolicy (elems (Webhooks config') ! i) \<noteq> None
               \<and> NamespaceSelector (elems (Webhooks config') ! i) \<noteq> None
               \<and> SideEffects (elems (Webhooks config') ! i) \<noteq> None"
    by (simp add: e len_def fillDefaults_fields)
  with d l show ?thesis by blast
qed

text \<open>
  The sample template: its one entry leaves all three fields out.
\<close>

theorem C5_defaults_filled_witness:
  "decodeValidatingConfig sampleWorld (Slice ''template'') =
     Inr (sampleTemplate\<lparr>Webhooks := Slice [fillDefaults sampleWebhook]\<rparr>)
   \<and> codecDecode sampleWorld (Slice ''template'') = Inr sampleTemplate
   \<and> FailurePolicy (elems (Webhooks sampleTemplate) ! 0) = None
   \<and> NamespaceSelector (elems (Webhooks sampleTemplate) ! 0) = None
   \<and> SideEffects (elems (Webhooks sampleTemplate) ! 0) = None
   \<and> len (Webhooks (sampleTemplate\<lparr>Webhooks := Slice [fillDefaults sampleWebhook]\<rparr>)) = 1
   \<and> FailurePolicy (elems (Webhooks
         (sampleTemplate\<lparr>Webhooks := Slice [fillDefaults sampleWebhook]\<rparr>)) ! 0) = Some ''Fail''
   \<and> NamespaceSelector (elems (Webhooks
         (sampleTemplate\<lparr>Webhooks := Slice [fillDefaults sampleWebhook]\<rparr>)) ! 0) =
         Some \<lparr>MatchLabels = None, MatchExpressions = nil_slice\<rparr>
   \<and> SideEffects (elems (Webhooks
         (sampleTemplate\<lparr>Webhooks := Slice [fillDefaults sampleWebhook]\<rparr>)) ! 0) = Some ''Unknown''"
proof -
  let ?c' = "sampleTemplate\<lparr>Webhooks := Slice [fillDefaults sampleWebhook]\<rparr>"
  have h: "decodeValidatingConfig sampleWorld (Slice ''template'') = Inr ?c'"
    by code_simp
  have d: "codecDecode sampleWorld (Slice ''template'') = Inr sampleTemplate"
    by (simp add: sampleWorld_def)
  have o: "FailurePolicy (elems (Webhooks sampleTemplate) ! 0) = None"
    "NamespaceSelector (elems (Webhooks sampleTemplate) ! 0) = None"
    "SideEffects (elems (Webhooks sampleTemplate) ! 0) = None"
    "len (Webhooks sampleTemplate) = 1"
    by (simp_all add: sampleTemplate_def sampleWebhook_def len_def)
  from C5_defaults_filled [OF h] d o
  have l: "len (Webhooks ?c') = 1"
    and f: "FailurePolicy (elems (Webhooks ?c') ! 0) = Some ''Fail''"
    and n: "NamespaceSelector (elems (Webhooks ?c') ! 0) =
         Some \<lparr>MatchLabels = None, MatchExpressions = nil_slice\<rparr>"
    and s: "SideEffects (elems (Webhooks ?c') ! 0) = Some ''Unknown''"
    by auto
  from h d o(1-3) l f n s show ?thesis
    by blast
qed

section \<open>C6: the update of an existing resource\<close>

text \<open>
  Claim C6. When the webhook resource is in the cache, \<open>updateValidatingWebhookConfiguration\<close>
  works on one object \<open>updated\<close>: its webhook entries and owner references are the
  desired ones, and its type information and all its other metadata are those of the
  current resource. The only call of the API server is an update with that object, made
  if and only if it differs from the current resource, that is if and only if the
  desired entries or owner references differ from the current ones; when both are the
  same no call is made.
\<close>

theorem C6_update_frame:
  assumes "webhooksLister w (WebhookConfigName (c_o c)) = Inr current"
  shows "\<exists>updated.
           Webhooks updated = Webhooks desired
         \<and> OwnerReferences (ObjectMeta updated) = OwnerReferences (ObjectMeta desired)
         \<and> TypeMeta updated = TypeMeta current
         \<and> (ObjectMeta updated)\<lparr>OwnerReferences := OwnerReferences (ObjectMeta current)\<rparr>
             = ObjectMeta current
         \<and> filter isWriteCall (snd (updateValidatingWebhookConfiguration w c desired)) =
             (if updated \<noteq> current then [UpdateCall updated] else [])
         \<and> (updated \<noteq> current \<longleftrightarrow>
               Webhooks desired \<noteq> Webhooks current
               \<or> OwnerReferences (ObjectMeta desired) \<noteq> OwnerReferences (ObjectMeta current))
         \<and> (Webhooks desired = Webhooks current
               \<and> OwnerReferences (ObjectMeta desired) = OwnerReferences (ObjectMeta current)
             \<longrightarrow> filter isWriteCall (snd (updateValidatingWebhookConfiguration w c desired)) = [])"
proof -
  define updated where
    "updated = current\<lparr>Webhooks := Webhooks desired,
                 ObjectMeta := (ObjectMeta current)\<lparr>OwnerReferences := OwnerReferences (ObjectMeta desired)\<rparr>\<rparr>"
  have 1: "Webhooks updated = Webhooks desired"
    and 2: "OwnerReferences (ObjectMeta updated) = OwnerReferences (ObjectMeta desired)"
    and 3: "TypeMeta updated = TypeMeta current"
    and 4: "(ObjectMeta updated)\<lparr>OwnerReferences := OwnerReferences (ObjectMeta current)\<rparr>
             = ObjectMeta current"
    by (simp_all add: updated_def)
  have 6: "updated \<noteq> current \<longleftrightarrow>
               Webhooks desired \<noteq> Webhooks current
               \<or> OwnerReferences (ObjectMeta desired) \<noteq> OwnerReferences (ObjectMeta current)"
  proof -
    have "updated = current \<longleftrightarrow>
            Webhooks desired = Webhooks current
            \<and> OwnerReferences (ObjectMeta desired) = OwnerReferences (ObjectMeta current)"
      unfolding updated_def
      by (cases current, cases "ObjectMeta current") auto
    then show ?thesis by blast
  qed
  have 5: "filter isWriteCall (snd (updateValidatingWebhookConfiguration w c desired)) =
             (if updated \<noteq> current then [UpdateCall updated] else [])"
    using assms
    by (simp add: updateValidatingWebhookConfiguration_def updated_def Let_def
        split: option.splits)
  from 5 6 have 7: "Webhooks desired = Webhooks current
               \<and> OwnerReferences (ObjectMeta desired) = OwnerReferences (ObjectMeta current)
             \<longrightarrow> filter isWriteCall (snd (updateValidatingWebhookConfiguration w c desired)) = []"
    by simp
  from 1 2 3 4 5 6 7 show ?thesis by blast
qed

text \<open>
  The resource in the cache has a resource version, a UID and a generation that the
  desired state does not have. A desired state with the same entries and owner
  references makes no call; one with the defaults filled in makes one update call, with
  the new entries and the metadata of the resource in the cache.
\<close>

theorem C6_update_frame_witness:
  "webhooksLister (sampleWorld\<lparr>webhooksLister := \<lambda>name. Inr sampleCurrent\<rparr>)
       (WebhookConfigName (c_o sampleController)) = Inr sampleCurrent
   \<and> sampleTemplate \<noteq> sampleCurrent
   \<and> Webhooks sampleTemplate = Webhooks sampleCurrent
   \<and> OwnerReferences (ObjectMeta sampleTemplate) = OwnerReferences (ObjectMeta sampleCurrent)
   \<and> filter isWriteCall (snd (updateValidatingWebhookConfiguration
        (sampleWorld\<lparr>webhooksLister := \<lambda>name. Inr sampleCurrent\<rparr>) sampleController
        sampleTemplate)) = []
   \<and> Webhooks (sampleTemplate\<lparr>Webhooks := Slice [fillDefaults sampleWebhook]\<rparr>)
        \<noteq> Webhooks sampleCurrent
   \<and> filter isWriteCall (snd (updateValidatingWebhookConfiguration
        (sampleWorld\<lparr>webhooksLister := \<lambda>name. Inr sampleCurrent\<rparr>) sampleController
        (sampleTemplate\<lparr>Webhooks := Slice [fillDefaults sampleWebhook]\<rparr>))) =
        [UpdateCall (sampleCurrent\<lparr>Webhooks := Slice [fillDefaults sampleWebhook]\<rparr>)]
   \<and> meta_ResourceVersion (ObjectMeta
        (sampleCurrent\<lparr>Webhooks := Slice [fillDefaults sampleWebhook]\<rparr>)) = ''42''"
proof -
  let ?w = "sampleWorld\<lparr>webhooksLister := \<lambda>name. Inr sampleCurrent\<rparr>"
  let ?d = "sampleTemplate\<lparr>Webhooks := Slice [fillDefaults sampleWebhook]\<rparr>"
  have h: "webhooksLister ?w (WebhookConfigName (c_o sampleController)) = Inr sampleCurrent"
    by simp
  have ne: "sampleTemplate \<noteq> sampleCurrent"
    and w1: "Webhooks sampleTemplate = Webhooks sampleCurrent"
    and o1: "OwnerReferences (ObjectMeta sampleTemplate) = OwnerReferences (ObjectMeta sampleCurrent)"
    and o2: "OwnerReferences (ObjectMeta ?d) = OwnerReferences (ObjectMeta sampleCurrent)"
    and w2: "Webhooks ?d \<noteq> Webhooks sampleCurrent"
    and rv: "meta_ResourceVersion (ObjectMeta
        (sampleCurrent\<lparr>Webhooks := Slice [fillDefaults sampleWebhook]\<rparr>)) = ''42''"
    by code_simp+
  from C6_update_frame [OF h, of sampleTemplate] w1 o1
  have c1: "filter isWriteCall (snd (updateValidatingWebhookConfiguration ?w sampleController
        sampleTemplate)) = []"
    by auto
  from C6_update_frame [OF h, of ?d] obtain updated where
    u: "Webhooks updated = Webhooks ?d"
      "OwnerReferences (ObjectMeta updated) = OwnerReferences (ObjectMeta ?d)"
      "TypeMeta updated = TypeMeta sampleCurrent"
      "(ObjectMeta updated)\<lparr>OwnerReferences := OwnerReferences (ObjectMeta sampleCurrent)\<rparr>
         = ObjectMeta sampleCurrent"
    and f: "filter isWriteCall (snd (updateValidatingWebhookConfiguration ?w sampleController ?d)) =
             (if updated \<noteq> sampleCurrent then [UpdateCall updated] else [])"
    and i: "updated \<noteq> sampleCurrent \<longleftrightarrow>
               Webhooks ?d \<noteq> Webhooks sampleCurrent
               \<or> OwnerReferences (ObjectMeta ?d) \<noteq> OwnerReferences (ObjectMeta sampleCurrent)"
    by blast
  from u(2,4) o2 have m: "ObjectMeta updated = ObjectMeta sampleCurrent"
    by (metis ObjectMeta.surjective ObjectMeta.update_convs(8))
  from u(1,3) m have "updated = sampleCurrent\<lparr>Webhooks := Slice [fillDefaults sampleWebhook]\<rparr>"
    by (cases updated, cases sampleCurrent) simp
  with f i w2
  have c2: "filter isWriteCall (snd (updateValidatingWebhookConfiguration ?w sampleController ?d)) =
        [UpdateCall (sampleCurrent\<lparr>Webhooks := Slice [fillDefaults sampleWebhook]\<rparr>)]"
    by simp
  from h ne w1 o1 c1 w2 c2 rv show ?thesis
    by blast
qed

section \<open>C7: unregister mode\<close>

text \<open>
  Claim C7. In a pass with the unregister flag set that gets past the readiness and
  legacy gates, the one delete call is the only read or write of the webhook resource
  (no create, no update, no lookup), and no file is read, so no desired state is built.
  When the delete call fails, its error is the result of the pass, the delete-error
  signal is reported with the reason of that error, and \<open>processNextWorkItem\<close> puts the
  item back on the queue with rate limiting.
\<close>

theorem C7_unregister:
  assumes "UnregisterValidationWebhook (c_o c)"
    and "passesReadinessGate w c" and "passesLegacyGate w c"
  shows "filter isTargetEvent (snd (snd (reconcileRequest w c req))) =
           [DeleteCall (WebhookConfigName (c_o c))]
       \<and> filter isBuildEvent (snd (snd (reconcileRequest w c req))) = []
       \<and> (clientDelete w (WebhookConfigName (c_o c)) = None \<longrightarrow>
            fst (reconcileRequest w c req) = Returned None)
       \<and> (\<forall>err. clientDelete w (WebhookConfigName (c_o c)) = Some err \<longrightarrow>
            reconcileRequest w c req =
              (Returned (Some err), c\<lparr>endpointReadyOnce := True\<rparr>,
               readinessEvents c @ legacyEvents c
                 @ [DeleteCall (WebhookConfigName (c_o c)),
                    ReportConfigDeleteError (ReasonForError err)] @ hookEvents c)
            \<and> (queueGet w = (RequestPtr req, False) \<longrightarrow>
                 processNextWorkItem w c =
                   (Returned True, c\<lparr>endpointReadyOnce := True\<rparr>,
                    QueueGet # (readinessEvents c @ legacyEvents c
                      @ [DeleteCall (WebhookConfigName (c_o c)),
                         ReportConfigDeleteError (ReasonForError err)] @ hookEvents c)
                      @ [QueueAddRateLimited (RequestPtr req), HandleError err,
                         QueueDone (RequestPtr req)])))"
proof -
  note eq = reconcileRequest_past_gates [OF assms(2,3), of req]
  note cv = converge_unregister [OF assms(1), of w]
  show ?thesis
  proof (cases "clientDelete w (WebhookConfigName (c_o c))")
    case None
    then show ?thesis
      by (simp add: eq cv filter_gate_events)
  next
    case (Some err)
    have r: "reconcileRequest w c req =
              (Returned (Some err), c\<lparr>endpointReadyOnce := True\<rparr>,
               readinessEvents c @ legacyEvents c
                 @ [DeleteCall (WebhookConfigName (c_o c)),
                    ReportConfigDeleteError (ReasonForError err)] @ hookEvents c)"
      by (simp add: eq cv Some)
    have p: "queueGet w = (RequestPtr req, False) \<longrightarrow>
                 processNextWorkItem w c =
                   (Returned True, c\<lparr>endpointReadyOnce := True\<rparr>,
                    QueueGet # (readinessEvents c @ legacyEvents c
                      @ [DeleteCall (WebhookConfigName (c_o c)),
                         ReportConfigDeleteError (ReasonForError err)] @ hookEvents c)
                      @ [QueueAddRateLimited (RequestPtr req), HandleError err,
                         QueueDone (RequestPtr req)])"
      using processNextWorkItem_error [OF _ r] by blast
    have f: "filter isTargetEvent (snd (snd (reconcileRequest w c req))) =
           [DeleteCall (WebhookConfigName (c_o c))]"
      "filter isBuildEvent (snd (snd (reconcileRequest w c req))) = []"
      by (simp_all add: r filter_gate_events)
    from Some r p f show ?thesis by simp
  qed
qed

text \<open>
  A controller in unregister mode, with the delete call failing and succeeding.
\<close>

theorem C7_unregister_witness:
  "UnregisterValidationWebhook (c_o unregisterController)
   \<and> passesReadinessGate (sampleWorld\<lparr>clientDelete := \<lambda>name. Some serverError\<rparr>) unregisterController
   \<and> passesLegacyGate (sampleWorld\<lparr>clientDelete := \<lambda>name. Some serverError\<rparr>) unregisterController
   \<and> filter isTargetEvent (snd (snd (reconcileRequest
        (sampleWorld\<lparr>clientDelete := \<lambda>name. Some serverError\<rparr>) unregisterController
        sampleRequest))) = [DeleteCall ''istio-galley'']
   \<and> filter isBuildEvent (snd (snd (reconcileRequest
        (sampleWorld\<lparr>clientDelete := \<lambda>name. Some serverError\<rparr>) unregisterController
        sampleRequest))) = []
   \<and> clientDelete (sampleWorld\<lparr>clientDelete := \<lambda>name. Some serverError\<rparr>)
        (WebhookConfigName (c_o unregisterController)) = Some serverError
   \<and> reconcileRequest (sampleWorld\<lparr>clientDelete := \<lambda>name. Some serverError\<rparr>)
        unregisterController sampleRequest =
        (Returned (Some serverError), unregisterController\<lparr>endpointReadyOnce := True\<rparr>,
         [GetEndpoints ''istio-system'' ''istio-galley'', DeleteCall ''istio-galley'',
          ReportConfigDeleteError ''InternalError''])
   \<and> queueGet (sampleWorld\<lparr>clientDelete := \<lambda>name. Some serverError\<rparr>)
        = (RequestPtr sampleRequest, False)
   \<and> processNextWorkItem (sampleWorld\<lparr>clientDelete := \<lambda>name. Some serverError\<rparr>)
        unregisterController =
        (Returned True, unregisterController\<lparr>endpointReadyOnce := True\<rparr>,
         [QueueGet, GetEndpoints ''istio-system'' ''istio-galley'', DeleteCall ''istio-galley'',
          ReportConfigDeleteError ''InternalError'',
          QueueAddRateLimited (RequestPtr sampleRequest), HandleError serverError,
          QueueDone (RequestPtr sampleRequest)])
   \<and> passesReadinessGate sampleWorld unregisterController
   \<and> passesLegacyGate sampleWorld unregisterController
   \<and> clientDelete sampleWorld (WebhookConfigName (c_o unregisterController)) = None
   \<and> fst (reconcileRequest sampleWorld unregisterController sampleRequest) = Returned None
   \<and> filter isTargetEvent (snd (snd (reconcileRequest sampleWorld unregisterController
        sampleRequest))) = [DeleteCall ''istio-galley'']"
proof -
  let ?w = "sampleWorld\<lparr>clientDelete := \<lambda>name. Some serverError\<rparr>"
  have h1: "UnregisterValidationWebhook (c_o unregisterController)"
    and h2: "passesReadinessGate ?w unregisterController"
    and h3: "passesLegacyGate ?w unregisterController"
    and h2': "passesReadinessGate sampleWorld unregisterController"
    and h3': "passesLegacyGate sampleWorld unregisterController"
    by code_simp+
  have d: "clientDelete ?w (WebhookConfigName (c_o unregisterController)) = Some serverError"
    by simp
  have d': "clientDelete sampleWorld (WebhookConfigName (c_o unregisterController)) = None"
    by (simp add: sampleWorld_def)
  have q: "queueGet ?w = (RequestPtr sampleRequest, False)"
    by (simp add: sampleWorld_def)
  have evs: "readinessEvents unregisterController = [GetEndpoints ''istio-system'' ''istio-galley'']"
    "legacyEvents unregisterController = []" "hookEvents unregisterController = []"
    "WebhookConfigName (c_o unregisterController) = ''istio-galley''"
    "ReasonForError serverError = ''InternalError''"
    by (simp_all add: readinessEvents_def legacyEvents_def hookEvents_def
        unregisterController_def sampleController_def sampleOptions_def serverError_def)
  note t = C7_unregister [OF h1 h2 h3, of sampleRequest]
  note t' = C7_unregister [OF h1 h2' h3', of sampleRequest]
  from t have f1: "filter isTargetEvent (snd (snd (reconcileRequest ?w unregisterController
        sampleRequest))) = [DeleteCall ''istio-galley'']"
    and f2: "filter isBuildEvent (snd (snd (reconcileRequest ?w unregisterController
        sampleRequest))) = []"
    by (simp_all add: evs)
  from t d q have c: "reconcileRequest ?w unregisterController sampleRequest =
        (Returned (Some serverError), unregisterController\<lparr>endpointReadyOnce := True\<rparr>,
         [GetEndpoints ''istio-system'' ''istio-galley'', DeleteCall ''istio-galley'',
          ReportConfigDeleteError ''InternalError''])"
    and p: "processNextWorkItem ?w unregisterController =
        (Returned True, unregisterController\<lparr>endpointReadyOnce := True\<rparr>,
         [QueueGet, GetEndpoints ''istio-system'' ''istio-galley'', DeleteCall ''istio-galley'',
          ReportConfigDeleteError ''InternalError'',
          QueueAddRateLimited (RequestPtr sampleRequest), HandleError serverError,
          QueueDone (RequestPtr sampleRequest)])"
    by (simp_all add: evs)
  from t' d' have c': "fst (reconcileRequest sampleWorld unregisterController sampleRequest) = Returned None"
    and f1': "filter isTargetEvent (snd (snd (reconcileRequest sampleWorld unregisterController
        sampleRequest))) = [DeleteCall ''istio-galley'']"
    by (simp_all add: evs)
  from h1 h2 h3 f1 f2 d c q p h2' h3' d' c' f1' show ?thesis
    by blast
qed

section \<open>C8: the readiness flag is sticky\<close>

text \<open>
  Claim C8. The endpoint-readiness flag only ever goes from false to true. Once it is
  true, it is true after every pass, after every work item and after every run of the
  worker; none of them looks the endpoint up again; and each of them does exactly what
  it would do with any other content of the endpoints cache, so the passes go on when
  the Endpoints object has become empty or has been deleted.
\<close>

theorem C8_flag_is_sticky:
  assumes "endpointReadyOnce c"
  shows "endpointReadyOnce (fst (snd (reconcileRequest w c req)))
       \<and> filter isEndpointLookup (snd (snd (reconcileRequest w c req))) = []
       \<and> reconcileRequest (w\<lparr>endpointsLister := l\<rparr>) c req = reconcileRequest w c req
       \<and> endpointReadyOnce (fst (snd (processNextWorkItem w c)))
       \<and> endpointReadyOnce (fst (runWorker ws c))
       \<and> filter isEndpointLookup (snd (runWorker ws c)) = []
       \<and> runWorker (map (\<lambda>w. w\<lparr>endpointsLister := f w\<rparr>) ws) c = runWorker ws c"
  using reconcileRequest_monotone [OF assms, of w req]
    reconcileRequest_no_lookup [OF assms, of w req]
    reconcileRequest_endpoints_irrelevant [OF assms, of l w req]
    processNextWorkItem_sticky [OF assms, of w]
    runWorker_sticky [OF assms, of ws f]
  by simp

text \<open>
  A controller whose flag is set, in an environment whose endpoints cache no longer
  holds the Endpoints object: the pass does not look it up and creates the resource.
\<close>

theorem C8_flag_is_sticky_witness:
  "endpointReadyOnce (sampleController\<lparr>endpointReadyOnce := True\<rparr>)
   \<and> endpointReadyOnce (fst (snd (reconcileRequest
         (sampleWorld\<lparr>endpointsLister := \<lambda>ns name. Inl notFound\<rparr>)
         (sampleController\<lparr>endpointReadyOnce := True\<rparr>) None)))
   \<and> filter isEndpointLookup (snd (snd (reconcileRequest
         (sampleWorld\<lparr>endpointsLister := \<lambda>ns name. Inl notFound\<rparr>)
         (sampleController\<lparr>endpointReadyOnce := True\<rparr>) None))) = []
   \<and> reconcileRequest (sampleWorld\<lparr>endpointsLister := \<lambda>ns name. Inl notFound\<rparr>)
         (sampleController\<lparr>endpointReadyOnce := True\<rparr>) None =
       reconcileRequest sampleWorld (sampleController\<lparr>endpointReadyOnce := True\<rparr>) None
   \<and> length (filter isWriteCall (snd (snd (reconcileRequest
         (sampleWorld\<lparr>endpointsLister := \<lambda>ns name. Inl notFound\<rparr>)
         (sampleController\<lparr>endpointReadyOnce := True\<rparr>) None)))) = 1
   \<and> endpointReadyOnce (fst (runWorker [sampleWorld, sampleWorld]
         (sampleController\<lparr>endpointReadyOnce := True\<rparr>)))
   \<and> filter isEndpointLookup (snd (runWorker [sampleWorld, sampleWorld]
         (sampleController\<lparr>endpointReadyOnce := True\<rparr>))) = []
   \<and> runWorker (map (\<lambda>w. w\<lparr>endpointsLister := \<lambda>ns name. Inl notFound\<rparr>) [sampleWorld, sampleWorld])
         (sampleController\<lparr>endpointReadyOnce := True\<rparr>) =
       runWorker [sampleWorld, sampleWorld] (sampleController\<lparr>endpointReadyOnce := True\<rparr>)"
proof -
  have h: "endpointReadyOnce (sampleController\<lparr>endpointReadyOnce := True\<rparr>)"
    by simp
  note t = C8_flag_is_sticky [OF h, where req = None and l = "\<lambda>ns name. Inl notFound"
      and ws = "[sampleWorld, sampleWorld]" and f = "\<lambda>w ns name. Inl notFound"]
  note t1 = t [where w = "sampleWorld\<lparr>endpointsLister := \<lambda>ns name. Inl notFound\<rparr>"]
  note t2 = t [where w = sampleWorld]
  have e: "length (filter isWriteCall (snd (snd (reconcileRequest
         (sampleWorld\<lparr>endpointsLister := \<lambda>ns name. Inl notFound\<rparr>)
         (sampleController\<lparr>endpointReadyOnce := True\<rparr>) None)))) = 1"
    by code_simp
  from h t1 t2 e show ?thesis
    by blast
qed

section \<open>C9: validation of the options\<close>

text \<open>
  The part of claim C9 that holds: \<open>Validate\<close> collects one error per violated
  constraint, in the order of the checks.
\<close>

lemma Validate_lists_violations:
  "Validate isLabel opt =
     MultiErrorPtr
       (case (if WebhookConfigName opt = [] \<or> \<not> isLabel (WebhookConfigName opt)
              then [Errorf ''invalid webhook name: %q'' [ArgString (WebhookConfigName opt)]] else [])
           @ (if WatchedNamespace opt = [] \<or> \<not> isLabel (WatchedNamespace opt)
              then [Errorf ''invalid namespace: %q'' [ArgString (WatchedNamespace opt)]] else [])
           @ (if GalleyDeploymentName opt \<noteq> [] \<and> \<not> isLabel (GalleyDeploymentName opt)
              then [Errorf ''invalid deployment name: %q'' [ArgString (GalleyDeploymentName opt)]] else [])
           @ (if ServiceName opt = [] \<or> \<not> isLabel (ServiceName opt)
              then [Errorf ''invalid service name: %q'' [ArgString (ServiceName opt)]] else [])
           @ (if CAPath opt = [] then [New ''CA cert file not specified''] else [])
           @ (if WebhookConfigPath opt = [] then [New ''webhook config file not specified''] else [])
        of [] \<Rightarrow> None | e # es \<Rightarrow> Some (e # es))"
  by (simp add: Validate_def Let_def)

text \<open>
  Claim C9 says that \<open>Validate\<close> returns the nil error when every constraint holds. It
  does not: with every constraint satisfied no error is appended, the function returns
  its nil \<^verbatim>\<open>*multierror.Error\<close> converted to \<^verbatim>\<open>error\<close>, and that interface value is
  not nil.
\<close>

theorem C9_validate_returns_typed_nil:
  assumes "WebhookConfigName opt \<noteq> []" and "isLabel (WebhookConfigName opt)"
    and "WatchedNamespace opt \<noteq> []" and "isLabel (WatchedNamespace opt)"
    and "GalleyDeploymentName opt = [] \<or> isLabel (GalleyDeploymentName opt)"
    and "ServiceName opt \<noteq> []" and "isLabel (ServiceName opt)"
    and "CAPath opt \<noteq> []" and "WebhookConfigPath opt \<noteq> []"
  shows "Validate isLabel opt = MultiErrorPtr None \<and> \<not> is_nil_error (Validate isLabel opt)"
  using assms by (auto simp: Validate_def is_nil_error_def)

text \<open>The sample options satisfy every constraint.\<close>

theorem C9_validate_returns_typed_nil_witness:
  "WebhookConfigName sampleOptions \<noteq> [] \<and> sampleIsLabel (WebhookConfigName sampleOptions)
   \<and> WatchedNamespace sampleOptions \<noteq> [] \<and> sampleIsLabel (WatchedNamespace sampleOptions)
   \<and> GalleyDeploymentName sampleOptions = []
   \<and> ServiceName sampleOptions \<noteq> [] \<and> sampleIsLabel (ServiceName sampleOptions)
   \<and> CAPath sampleOptions \<noteq> [] \<and> WebhookConfigPath sampleOptions \<noteq> []
   \<and> Validate sampleIsLabel sampleOptions = MultiErrorPtr None
   \<and> \<not> is_nil_error (Validate sampleIsLabel sampleOptions)"
proof -
  have h: "WebhookConfigName sampleOptions \<noteq> []" "sampleIsLabel (WebhookConfigName sampleOptions)"
    "WatchedNamespace sampleOptions \<noteq> []" "sampleIsLabel (WatchedNamespace sampleOptions)"
    "GalleyDeploymentName sampleOptions = []"
    "ServiceName sampleOptions \<noteq> []" "sampleIsLabel (ServiceName sampleOptions)"
    "CAPath sampleOptions \<noteq> []" "WebhookConfigPath sampleOptions \<noteq> []"
    by (simp_all add: sampleOptions_def sampleIsLabel_def)
  have g: "GalleyDeploymentName sampleOptions = [] \<or> sampleIsLabel (GalleyDeploymentName sampleOptions)"
    using h(5) by simp
  from C9_validate_returns_typed_nil [OF h(1-4) g h(6-9)] h show ?thesis
    by blast
qed

section \<open>C10: a file that cannot be read\<close>

text \<open>
  Claim C10. When the template file cannot be read, the build step fails with a
  \<open>configError\<close> whose reason is "could not read validatingwebhookconfiguration file";
  when the template is read and the CA bundle file cannot be read, with one whose
  reason is "could not read caBundle file". A pass that reaches the build step then
  returns nil, reports that reason through the config-load-error signal, does not touch
  the webhook resource, and the work item is forgotten and not put back on the queue.
\<close>

theorem C10_file_read_failures:
  "(readFile w (WebhookConfigPath (c_o c)) = Inl err \<longrightarrow>
      Controller_buildValidatingWebhookConfiguration w c =
        (Inl \<lparr>ce_err = err, ce_reason = ''could not read validatingwebhookconfiguration file''\<rparr>,
         [ReadFile (WebhookConfigPath (c_o c))]))
   \<and> (readFile w (WebhookConfigPath (c_o c)) = Inr webhook \<and> readFile w (CAPath (c_o c)) = Inl err \<longrightarrow>
      Controller_buildValidatingWebhookConfiguration w c =
        (Inl \<lparr>ce_err = err, ce_reason = ''could not read caBundle file''\<rparr>,
         [ReadFile (WebhookConfigPath (c_o c)), ReadFile (CAPath (c_o c))]))
   \<and> (passesReadinessGate w c \<and> passesLegacyGate w c \<and> \<not> UnregisterValidationWebhook (c_o c)
        \<and> (readFile w (WebhookConfigPath (c_o c)) = Inl err
             \<or> readFile w (WebhookConfigPath (c_o c)) = Inr webhook \<and> readFile w (CAPath (c_o c)) = Inl err)
        \<and> queueGet w = (RequestPtr req, False) \<longrightarrow>
      fst (reconcileRequest w c req) = Returned None
      \<and> ReportConfigLoadError
           (if readFile w (WebhookConfigPath (c_o c)) = Inl err
            then ''could not read validatingwebhookconfiguration file''
            else ''could not read caBundle file'')
          \<in> set (snd (snd (reconcileRequest w c req)))
      \<and> filter isTargetEvent (snd (snd (reconcileRequest w c req))) = []
      \<and> fst (processNextWorkItem w c) = Returned True
      \<and> QueueForget (RequestPtr req) \<in> set (snd (snd (processNextWorkItem w c)))
      \<and> filter isRequeue (snd (snd (processNextWorkItem w c))) = [])"
proof (intro conjI impI)
  show b1: "Controller_buildValidatingWebhookConfiguration w c =
        (Inl \<lparr>ce_err = err, ce_reason = ''could not read validatingwebhookconfiguration file''\<rparr>,
         [ReadFile (WebhookConfigPath (c_o c))])"
    if "readFile w (WebhookConfigPath (c_o c)) = Inl err"
    using that by (simp add: Controller_buildValidatingWebhookConfiguration_def)
  show b2: "Controller_buildValidatingWebhookConfiguration w c =
        (Inl \<lparr>ce_err = err, ce_reason = ''could not read caBundle file''\<rparr>,
         [ReadFile (WebhookConfigPath (c_o c)), ReadFile (CAPath (c_o c))])"
    if "readFile w (WebhookConfigPath (c_o c)) = Inr webhook \<and> readFile w (CAPath (c_o c)) = Inl err"
    using that by (simp add: Controller_buildValidatingWebhookConfiguration_def)
  assume a: "passesReadinessGate w c \<and> passesLegacyGate w c \<and> \<not> UnregisterValidationWebhook (c_o c)
        \<and> (readFile w (WebhookConfigPath (c_o c)) = Inl err
             \<or> readFile w (WebhookConfigPath (c_o c)) = Inr webhook \<and> readFile w (CAPath (c_o c)) = Inl err)
        \<and> queueGet w = (RequestPtr req, False)"
  define tag where "tag = (if readFile w (WebhookConfigPath (c_o c)) = Inl err
            then ''could not read validatingwebhookconfiguration file''
            else ''could not read caBundle file'')"
  from a b1 b2 obtain bevs where
    b: "Controller_buildValidatingWebhookConfiguration w c = (Inl \<lparr>ce_err = err, ce_reason = tag\<rparr>, bevs)"
    by (auto simp: tag_def)
  from a have g: "passesReadinessGate w c" "passesLegacyGate w c"
    "\<not> UnregisterValidationWebhook (c_o c)" "queueGet w = (RequestPtr req, False)"
    by simp_all
  note eq = reconcileRequest_build_failure [OF g(1,2,3) b, of req]
  note p = processNextWorkItem_nil [OF g(4) eq]
  from build_events_no_target [of w c] build_events_no_requeue [of w c] b
  have bb: "filter isTargetEvent bevs = []" "filter isRequeue bevs = []"
    by simp_all
  show "fst (reconcileRequest w c req) = Returned None"
    by (simp add: eq)
  show "ReportConfigLoadError
           (if readFile w (WebhookConfigPath (c_o c)) = Inl err
            then ''could not read validatingwebhookconfiguration file''
            else ''could not read caBundle file'')
          \<in> set (snd (snd (reconcileRequest w c req)))"
    unfolding tag_def [symmetric] by (simp add: eq Reason_def)
  show "filter isTargetEvent (snd (snd (reconcileRequest w c req))) = []"
    by (simp add: eq filter_gate_events bb)
  show "fst (processNextWorkItem w c) = Returned True"
    by (simp add: p)
  show "QueueForget (RequestPtr req) \<in> set (snd (snd (processNextWorkItem w c)))"
    by (simp add: p)
  show "filter isRequeue (snd (snd (processNextWorkItem w c))) = []"
    by (simp add: p gate_events_no_requeue bb)
qed

text \<open>
  The sample installation with no file readable, and with the template readable and
  the CA bundle not.
\<close>

theorem C10_file_read_failures_witness:
  "readFile (sampleWorld\<lparr>readFile := \<lambda>path. Inl (New ''no such file'')\<rparr>)
       (WebhookConfigPath (c_o sampleController)) = Inl (New ''no such file'')
   \<and> Controller_buildValidatingWebhookConfiguration
        (sampleWorld\<lparr>readFile := \<lambda>path. Inl (New ''no such file'')\<rparr>) sampleController =
        (Inl \<lparr>ce_err = New ''no such file'',
              ce_reason = ''could not read validatingwebhookconfiguration file''\<rparr>,
         [ReadFile ''/config.yaml''])
   \<and> passesReadinessGate (sampleWorld\<lparr>readFile := \<lambda>path. Inl (New ''no such file'')\<rparr>) sampleController
   \<and> passesLegacyGate (sampleWorld\<lparr>readFile := \<lambda>path. Inl (New ''no such file'')\<rparr>) sampleController
   \<and> \<not> UnregisterValidationWebhook (c_o sampleController)
   \<and> queueGet (sampleWorld\<lparr>readFile := \<lambda>path. Inl (New ''no such file'')\<rparr>)
        = (RequestPtr sampleRequest, False)
   \<and> fst (reconcileRequest (sampleWorld\<lparr>readFile := \<lambda>path. Inl (New ''no such file'')\<rparr>)
        sampleController sampleRequest) = Returned None
   \<and> ReportConfigLoadError ''could not read validatingwebhookconfiguration file''
        \<in> set (snd (snd (reconcileRequest
              (sampleWorld\<lparr>readFile := \<lambda>path. Inl (New ''no such file'')\<rparr>)
              sampleController sampleRequest)))
   \<and> QueueForget (RequestPtr sampleRequest)
        \<in> set (snd (snd (processNextWorkItem
              (sampleWorld\<lparr>readFile := \<lambda>path. Inl (New ''no such file'')\<rparr>) sampleController)))
   \<and> filter isRequeue (snd (snd (processNextWorkItem
        (sampleWorld\<lparr>readFile := \<lambda>path. Inl (New ''no such file'')\<rparr>) sampleController))) = []
   \<and> readFile (sampleWorld\<lparr>readFile := \<lambda>path. if path = ''/config.yaml''
                   then Inr (Slice ''template'') else Inl (New ''permission denied'')\<rparr>)
       (WebhookConfigPath (c_o sampleController)) = Inr (Slice ''template'')
   \<and> readFile (sampleWorld\<lparr>readFile := \<lambda>path. if path = ''/config.yaml''
                   then Inr (Slice ''template'') else Inl (New ''permission denied'')\<rparr>)
       (CAPath (c_o sampleController)) = Inl (New ''permission denied'')
   \<and> Controller_buildValidatingWebhookConfiguration
        (sampleWorld\<lparr>readFile := \<lambda>path. if path = ''/config.yaml''
                   then Inr (Slice ''template'') else Inl (New ''permission denied'')\<rparr>)
        sampleController =
        (Inl \<lparr>ce_err = New ''permission denied'', ce_reason = ''could not read caBundle file''\<rparr>,
         [ReadFile ''/config.yaml'', ReadFile ''/ca.pem''])
   \<and> fst (reconcileRequest
        (sampleWorld\<lparr>readFile := \<lambda>path. if path = ''/config.yaml''
                   then Inr (Slice ''template'') else Inl (New ''permission denied'')\<rparr>)
        sampleController sampleRequest) = Returned None
   \<and> ReportConfigLoadError ''could not read caBundle file''
        \<in> set (snd (snd (reconcileRequest
              (sampleWorld\<lparr>readFile := \<lambda>path. if path = ''/config.yaml''
                   then Inr (Slice ''template'') else Inl (New ''permission denied'')\<rparr>)
              sampleController sampleRequest)))
   \<and> filter isRequeue (snd (snd (processNextWorkItem
        (sampleWorld\<lparr>readFile := \<lambda>path. if path = ''/config.yaml''
                   then Inr (Slice ''template'') else Inl (New ''permission denied'')\<rparr>)
        sampleController))) = []"
proof -
  let ?w1 = "sampleWorld\<lparr>readFile := \<lambda>path. Inl (New ''no such file'')\<rparr>"
  let ?w2 = "sampleWorld\<lparr>readFile := \<lambda>path. if path = ''/config.yaml''
                   then Inr (Slice ''template'') else Inl (New ''permission denied'')\<rparr>"
  have paths: "WebhookConfigPath (c_o sampleController) = ''/config.yaml''"
    "CAPath (c_o sampleController) = ''/ca.pem''"
    by (simp_all add: sampleController_def sampleOptions_def)
  have r1: "readFile ?w1 (WebhookConfigPath (c_o sampleController)) = Inl (New ''no such file'')"
    by simp
  have r2: "readFile ?w2 (WebhookConfigPath (c_o sampleController)) = Inr (Slice ''template'')"
    "readFile ?w2 (CAPath (c_o sampleController)) = Inl (New ''permission denied'')"
    by (simp_all add: paths)
  have g1: "passesReadinessGate ?w1 sampleController" "passesLegacyGate ?w1 sampleController"
    and g2: "passesReadinessGate ?w2 sampleController" "passesLegacyGate ?w2 sampleController"
    and u: "\<not> UnregisterValidationWebhook (c_o sampleController)"
    by code_simp+
  have q1: "queueGet ?w1 = (RequestPtr sampleRequest, False)"
    and q2: "queueGet ?w2 = (RequestPtr sampleRequest, False)"
    by (simp_all add: sampleWorld_def)
  note t1 = C10_file_read_failures [where w = ?w1 and c = sampleController
      and err = "New ''no such file''" and req = sampleRequest and webhook = "Slice ''template''"]
  note t2 = C10_file_read_failures [where w = ?w2 and c = sampleController
      and err = "New ''permission denied''" and req = sampleRequest and webhook = "Slice ''template''"]
  from t1 r1 have b1: "Controller_buildValidatingWebhookConfiguration ?w1 sampleController =
        (Inl \<lparr>ce_err = New ''no such file'',
              ce_reason = ''could not read validatingwebhookconfiguration file''\<rparr>,
         [ReadFile ''/config.yaml''])"
    by (simp add: paths)
  from t1 r1 g1 u q1
  have c1: "fst (reconcileRequest ?w1 sampleController sampleRequest) = Returned None"
    and e1: "ReportConfigLoadError ''could not read validatingwebhookconfiguration file''
        \<in> set (snd (snd (reconcileRequest ?w1 sampleController sampleRequest)))"
    and f1: "QueueForget (RequestPtr sampleRequest)
        \<in> set (snd (snd (processNextWorkItem ?w1 sampleController)))"
    and n1: "filter isRequeue (snd (snd (processNextWorkItem ?w1 sampleController))) = []"
    by simp_all
  from t2 r2 have b2: "Controller_buildValidatingWebhookConfiguration ?w2 sampleController =
        (Inl \<lparr>ce_err = New ''permission denied'', ce_reason = ''could not read caBundle file''\<rparr>,
         [ReadFile ''/config.yaml'', ReadFile ''/ca.pem''])"
    by (simp add: paths)
  from t2 r2 g2 u q2
  have c2: "fst (reconcileRequest ?w2 sampleController sampleRequest) = Returned None"
    and e2: "ReportConfigLoadError ''could not read caBundle file''
        \<in> set (snd (snd (reconcileRequest ?w2 sampleController sampleRequest)))"
    and n2: "filter isRequeue (snd (snd (processNextWorkItem ?w2 sampleController))) = []"
    by simp_all
  from r1 b1 g1 u q1 c1 e1 f1 n1 r2 b2 c2 e2 n2 show ?thesis
    by blast
qed

end
